theory Spec2Isabelle
  imports Main
begin

text \<open>
  A model of the tool framework of openCursor (package \<open>tools\<close>: the manager,
  read_file, write_file, delete_file, search_replace and the fallback scanner of
  grep_search) and of the conversation loop of its client (\<open>StreamQueryWithTools\<close>).
  Every Go function is a function here with the name it has in the source; a loop inside
  a function is a recursive function named after what it does. The file system is an
  explicit state that a tool takes and returns, errors are values, and a run-time panic
  is a result of its own.

  The standard library is modelled where the statements depend on it (strings, paths on
  a Unix host, the line scanner, the file operations); the regular-expression engine,
  glob matching, the JSON codec and the model provider are parameters. Tool functions
  are functions: a tool that never returns is outside the model.
\<close>

section \<open>Strings\<close>

text \<open>
  Go strings are byte sequences; they are modelled as \<open>string\<close> (a list of
  \<open>char\<close>, one per byte). The few functions of package \<open>strings\<close> the tools call
  are written out.
\<close>

definition HasPrefix :: "string \<Rightarrow> string \<Rightarrow> bool" where
  "HasPrefix s p = (take (length p) s = p)"

text \<open>\<open>strings.Index\<close>: the position of the leftmost occurrence, \<open>None\<close> for -1.\<close>

fun Index :: "string \<Rightarrow> string \<Rightarrow> nat option" where
  "Index [] sub = (if sub = [] then Some 0 else None)"
| "Index (c # cs) sub =
     (if HasPrefix (c # cs) sub then Some 0 else map_option Suc (Index cs sub))"

definition Contains :: "string \<Rightarrow> string \<Rightarrow> bool" where
  "Contains s sub = (Index s sub \<noteq> None)"

text \<open>\<open>strings.Replace(s, old, new, 1)\<close> for a non-empty \<open>old\<close>.\<close>

definition Replace1 :: "string \<Rightarrow> string \<Rightarrow> string \<Rightarrow> string" where
  "Replace1 s old new =
     (case Index s old of
        None \<Rightarrow> s
      | Some i \<Rightarrow> take i s @ new @ drop (i + length old) s)"

text \<open>
  \<open>strings.ToLower\<close> on ASCII strings: bytes outside \<open>A..Z\<close> are left as they are.
  Go also lowers letters outside ASCII; on a string with such letters the model is not
  the library function, and no statement below speaks of one.
\<close>

definition lower_char :: "char \<Rightarrow> char" where
  "lower_char c =
     (case map_of (zip ''ABCDEFGHIJKLMNOPQRSTUVWXYZ'' ''abcdefghijklmnopqrstuvwxyz'') c of
        Some l \<Rightarrow> l
      | None \<Rightarrow> c)"

definition ToLower :: "string \<Rightarrow> string" where
  "ToLower s = map lower_char s"

text \<open>The verb \<open>%d\<close> of \<open>fmt\<close>.\<close>

definition digit_char :: "nat \<Rightarrow> char" where
  "digit_char d = ''0123456789'' ! d"

function decimal :: "nat \<Rightarrow> string" where
  "decimal n = (if n < 10 then [digit_char n] else decimal (n div 10) @ [digit_char (n mod 10)])"
  by pat_completeness auto
termination
  by (relation "measure id") auto

definition fmt_d :: "int \<Rightarrow> string" where
  "fmt_d i = (if i < 0 then CHR ''-'' # decimal (nat (- i)) else decimal (nat i))"

section \<open>Errors\<close>

text \<open>
  Every \<open>fmt.Errorf\<close> of the tools and of the client is a constructor; \<open>Error\<close>
  renders the message. Messages of the operating system and of libraries are carried
  as text.
\<close>

datatype error =
    ToolAlreadyRegistered string
  | TargetFileRequired
  | ContentRequired
  | FilePathRequired
  | OldStringRequired
  | NewStringRequired
  | FileNotFound string
  | FailedToOpenFile string
  | FailedToReadFile string
  | FailedToWriteFile string
  | EndBeforeStart int int
  | StartExceedsTotal int int
  | TooManyLines int
  | MinLinesRequired int int
  | FailedToGetAbs string
  | DeleteInSystemDirectory string
  | DeleteDangerousType string
  | DeleteSystemFile string
  | WriteToSystemDirectory string
  | CreateDangerousType string
  | CreateSystemFile string
  | DangerousCharacter string
  | InvalidRegex string
  | ScanError string
  | FailedToCreateStream string
  | StreamError string
  | ToolManagerNotSet
  | FailedToParseArguments string
  | FailedToExecuteTool string

fun Error :: "error \<Rightarrow> string" where
  "Error (ToolAlreadyRegistered name) = ''tool '' @ [CHR 0x27] @ name @ [CHR 0x27] @ '' already registered''"
| "Error TargetFileRequired = ''target_file is required''"
| "Error ContentRequired = ''content is required''"
| "Error FilePathRequired = ''file_path is required''"
| "Error OldStringRequired = ''old_string is required''"
| "Error NewStringRequired = ''new_string is required''"
| "Error (FileNotFound p) = ''file not found: '' @ p"
| "Error (FailedToOpenFile e) = ''failed to open file: '' @ e"
| "Error (FailedToReadFile e) = ''failed to read file: '' @ e"
| "Error (FailedToWriteFile e) = ''failed to write file: '' @ e"
| "Error (EndBeforeStart e s) =
     ''end_line ('' @ fmt_d e @ '') must be >= start_line ('' @ fmt_d s @ '')''"
| "Error (StartExceedsTotal s t) =
     ''start_line ('' @ fmt_d s @ '') exceeds total lines ('' @ fmt_d t @ '')''"
| "Error (TooManyLines n) =
     ''cannot read more than 250 lines at once (requested: '' @ fmt_d n @ '')''"
| "Error (MinLinesRequired s e) =
     ''minimum 200 lines required when file has >= 200 lines. Consider reading lines ''
       @ fmt_d s @ ''-'' @ fmt_d e"
| "Error (FailedToGetAbs e) = ''failed to get absolute path: '' @ e"
| "Error (DeleteInSystemDirectory d) = ''cannot delete files in system directory: '' @ d"
| "Error (DeleteDangerousType ext) = ''cannot delete potentially dangerous file type: '' @ ext"
| "Error (DeleteSystemFile f) = ''cannot delete system file: '' @ f"
| "Error (WriteToSystemDirectory d) = ''cannot write files to system directory: '' @ d"
| "Error (CreateDangerousType ext) = ''cannot create potentially dangerous file type: '' @ ext"
| "Error (CreateSystemFile f) = ''cannot create system file: '' @ f"
| "Error (DangerousCharacter c) = ''filename contains dangerous character: '' @ c"
| "Error (InvalidRegex e) = ''invalid regex pattern: '' @ e"
| "Error (ScanError e) = e"
| "Error (FailedToCreateStream e) = ''failed to create chat completion stream: '' @ e"
| "Error (StreamError e) = ''stream error: '' @ e"
| "Error ToolManagerNotSet = ''tool manager not set''"
| "Error (FailedToParseArguments e) = ''failed to parse tool arguments: '' @ e"
| "Error (FailedToExecuteTool e) = ''failed to execute tool: '' @ e"

section \<open>Paths\<close>

text \<open>
  Package \<open>path/filepath\<close> on a Unix host: the separator is \<open>/\<close> and there are no
  volume names. \<open>Clean\<close> is the lexical normalisation its documentation gives.
\<close>

definition IsAbs :: "string \<Rightarrow> bool" where
  "IsAbs p = HasPrefix p ''/''"

fun split_on :: "char \<Rightarrow> string \<Rightarrow> string list" where
  "split_on c [] = [[]]"
| "split_on c (x # xs) =
     (if x = c then [] # split_on c xs
      else (case split_on c xs of [] \<Rightarrow> [[x]] | p # ps \<Rightarrow> (x # p) # ps))"

fun join_with :: "string \<Rightarrow> string list \<Rightarrow> string" where
  "join_with sep [] = []"
| "join_with sep [x] = x"
| "join_with sep (x # y # ys) = x @ sep @ join_with sep (y # ys)"

fun clean_elems :: "bool \<Rightarrow> string list \<Rightarrow> string list \<Rightarrow> string list" where
  "clean_elems rooted out [] = rev out"
| "clean_elems rooted out (e # es) =
     (if e = [] \<or> e = ''.'' then clean_elems rooted out es
      else if e = ''..'' then
        (case out of
           [] \<Rightarrow> if rooted then clean_elems rooted out es else clean_elems rooted (e # out) es
         | t # ts \<Rightarrow>
             if t = ''..'' then clean_elems rooted (e # out) es else clean_elems rooted ts es)
      else clean_elems rooted (e # out) es)"

definition Clean :: "string \<Rightarrow> string" where
  "Clean p =
     (let body = join_with ''/'' (clean_elems (IsAbs p) [] (split_on CHR ''/'' p))
      in if IsAbs p then CHR ''/'' # body else if body = [] then ''.'' else body)"

definition Join :: "string \<Rightarrow> string \<Rightarrow> string" where
  "Join a b =
     (if a = [] then (if b = [] then [] else Clean b) else Clean (a @ ''/'' @ b))"

text \<open>\<open>filepath.Ext\<close>: from the last dot of the last element; empty without one.\<close>

fun ext_scan :: "string \<Rightarrow> string \<Rightarrow> string" where
  "ext_scan [] acc = []"
| "ext_scan (c # cs) acc =
     (if c = CHR ''/'' then []
      else if c = CHR ''.'' then c # acc
      else ext_scan cs (c # acc))"

definition Ext :: "string \<Rightarrow> string" where
  "Ext p = ext_scan (rev p) []"

definition Base :: "string \<Rightarrow> string" where
  "Base p =
     (if p = [] then ''.''
      else let q = rev (dropWhile (\<lambda>c. c = CHR ''/'') (rev p));
               r = rev (takeWhile (\<lambda>c. c \<noteq> CHR ''/'') (rev q))
           in if r = [] then ''/'' else r)"

definition Dir_of :: "string \<Rightarrow> string" where
  "Dir_of p = Clean (rev (dropWhile (\<lambda>c. c \<noteq> CHR ''/'') (rev p)))"

section \<open>The file system\<close>

text \<open>
  The state the tools act on. \<open>nodes\<close> maps a normalised absolute path to what is
  there. A path is looked up after the lexical normalisation of \<open>Clean\<close>; symbolic
  links are not modelled, and the kernel's refusal of a path that runs through a missing
  directory or through a regular file is not derived from \<open>nodes\<close>: like a missing
  permission or a full disk it is one of the \<open>faults\<close>, under which an operation on a
  path fails with the given message. \<open>walk\<close> is the sequence of visits
  \<open>filepath.Walk\<close> makes from a root, in its order.
\<close>

datatype node = File string | Dir

datatype os_op = OpGetwd | OpStat | OpOpen | OpRead | OpCreate | OpRemove | OpMkdir

datatype walk_entry = WalkError string | WalkDir string | WalkFile string

record world =
  nodes :: "string \<rightharpoonup> node"
  faults :: "os_op \<Rightarrow> string \<Rightarrow> string option"
  cwd :: string
  dir_size :: "string \<Rightarrow> nat"
  walk :: "string \<Rightarrow> walk_entry list"

definition resolve :: "world \<Rightarrow> string \<Rightarrow> string" where
  "resolve w p = Clean (if IsAbs p then p else cwd w @ ''/'' @ p)"

text \<open>\<open>filepath.Abs\<close>: fails only when the working directory cannot be read.\<close>

definition Abs :: "world \<Rightarrow> string \<Rightarrow> string + string" where
  "Abs w p =
     (if IsAbs p then Inr (Clean p)
      else (case faults w OpGetwd [] of
              Some e \<Rightarrow> Inl e
            | None \<Rightarrow> Inr (Join (cwd w) p)))"

text \<open>\<open>os.Stat\<close>: the node, or that nothing is there, or another failure.\<close>

datatype stat_result = StatOk node | StatNotExist | StatFailed string

definition os_Stat :: "world \<Rightarrow> string \<Rightarrow> stat_result" where
  "os_Stat w p =
     (case faults w OpStat p of
        Some e \<Rightarrow> StatFailed e
      | None \<Rightarrow> (case nodes w (resolve w p) of None \<Rightarrow> StatNotExist | Some n \<Rightarrow> StatOk n))"

definition IsDir :: "node \<Rightarrow> bool" where
  "IsDir n = (case n of Dir \<Rightarrow> True | File c \<Rightarrow> False)"

definition Size :: "world \<Rightarrow> string \<Rightarrow> node \<Rightarrow> nat" where
  "Size w p n = (case n of Dir \<Rightarrow> dir_size w (resolve w p) | File c \<Rightarrow> length c)"

definition not_exist_text :: "string \<Rightarrow> string \<Rightarrow> string" where
  "not_exist_text operation p = operation @ '' '' @ p @ '': no such file or directory''"

definition os_Open :: "world \<Rightarrow> string \<Rightarrow> string + node" where
  "os_Open w p =
     (case faults w OpOpen p of
        Some e \<Rightarrow> Inl e
      | None \<Rightarrow>
          (case nodes w (resolve w p) of
             None \<Rightarrow> Inl (not_exist_text ''open'' p)
           | Some n \<Rightarrow> Inr n))"

text \<open>
  \<open>os.Create\<close> followed by writing \<open>content\<close>, and \<open>os.WriteFile\<close>: the file is
  truncated and holds the content afterwards.
\<close>

definition os_WriteFile :: "world \<Rightarrow> string \<Rightarrow> string \<Rightarrow> string + world" where
  "os_WriteFile w p content =
     (case faults w OpCreate p of
        Some e \<Rightarrow> Inl e
      | None \<Rightarrow>
          (case nodes w (resolve w p) of
             Some Dir \<Rightarrow> Inl (''open '' @ p @ '': is a directory'')
           | _ \<Rightarrow> Inr (w\<lparr>nodes := (nodes w)(resolve w p \<mapsto> File content)\<rparr>)))"

definition os_Remove :: "world \<Rightarrow> string \<Rightarrow> string + world" where
  "os_Remove w p =
     (case faults w OpRemove p of
        Some e \<Rightarrow> Inl e
      | None \<Rightarrow>
          (case nodes w (resolve w p) of
             None \<Rightarrow> Inl (not_exist_text ''remove'' p)
           | Some n \<Rightarrow> Inr (w\<lparr>nodes := (nodes w)(resolve w p := None)\<rparr>)))"

definition is_file :: "node option \<Rightarrow> bool" where
  "is_file n = (case n of Some (File c) \<Rightarrow> True | _ \<Rightarrow> False)"

text \<open>The directory and its ancestors, outermost first. \<open>os.MkdirAll\<close> fails at the
  first of them that is a regular file, and names it.\<close>

fun chain_from :: "string \<Rightarrow> string list \<Rightarrow> string list" where
  "chain_from pre [] = []"
| "chain_from pre (e # es) =
     (let q = (if pre = ''/'' \<or> pre = [] then pre @ e else pre @ ''/'' @ e)
      in q # chain_from q es)"

definition dir_chain :: "string \<Rightarrow> string list" where
  "dir_chain d =
     chain_from (if IsAbs d then ''/'' else [])
       (filter (\<lambda>e. e \<noteq> [] \<and> e \<noteq> ''.'') (split_on CHR ''/'' d))"

definition os_MkdirAll :: "world \<Rightarrow> string \<Rightarrow> string + world" where
  "os_MkdirAll w d =
     (case faults w OpMkdir d of
        Some e \<Rightarrow> Inl e
      | None \<Rightarrow>
          (let ps = dir_chain d
           in case find (\<lambda>q. is_file (nodes w (resolve w q))) ps of
                Some q \<Rightarrow> Inl (''mkdir '' @ q @ '': not a directory'')
              | None \<Rightarrow>
                  Inr (w\<lparr>nodes := (\<lambda>q. if q \<in> set (map (resolve w) ps) then Some Dir
                                       else nodes w q)\<rparr>)))"

section \<open>bufio.Scanner with the default line splitter\<close>

text \<open>
  \<open>Scan\<close> yields the lines of the input without their terminator, one trailing
  carriage return dropped. A line that does not fit the buffer (\<open>MaxScanTokenSize\<close>
  bytes) stops the scan with \<open>ErrTooLong\<close>. The result is the list of tokens and the
  value of \<open>Err()\<close> at the end.
\<close>

definition MaxScanTokenSize :: nat where
  "MaxScanTokenSize = 65536"

definition ErrTooLong :: string where
  "ErrTooLong = ''bufio.Scanner: token too long''"

definition raw_lines :: "string \<Rightarrow> string list" where
  "raw_lines content =
     (let ps = split_on CHR 0x0A content in if last ps = [] then butlast ps else ps)"

definition dropCR :: "string \<Rightarrow> string" where
  "dropCR l = (if l \<noteq> [] \<and> last l = CHR 0x0D then butlast l else l)"

fun scan_tokens :: "string list \<Rightarrow> string list \<times> string option" where
  "scan_tokens [] = ([], None)"
| "scan_tokens (l # ls) =
     (if MaxScanTokenSize \<le> length l then ([], Some ErrTooLong)
      else (case scan_tokens ls of (ts, e) \<Rightarrow> (dropCR l # ts, e)))"

definition scan_node :: "world \<Rightarrow> string \<Rightarrow> node \<Rightarrow> string list \<times> string option" where
  "scan_node w p n =
     (case faults w OpRead p of
        Some e \<Rightarrow> ([], Some e)
      | None \<Rightarrow>
          (case n of
             Dir \<Rightarrow> ([], Some (''read '' @ p @ '': is a directory''))
           | File content \<Rightarrow> scan_tokens (raw_lines content)))"

section \<open>The tool contract\<close>

text \<open>
  Parameters and schemas are JSON-compatible values (\<open>interface{}\<close> in the source).
  A number stands for the integer the source's conversion \<open>int(v)\<close> yields from it,
  whichever of \<open>float64\<close>, \<open>int\<close> and \<open>int64\<close> carried it.
\<close>

datatype val =
    VNull
  | VBool bool
  | VNumber int
  | VString string
  | VArray "val list"
  | VObject "(string \<times> val) list"

type_synonym params = "string \<rightharpoonup> val"

text \<open>The type assertions \<open>params[k].(string)\<close> and \<open>params[k].(bool)\<close>, and the
  type switch on a number (zero when the key is absent or not a number).\<close>

definition string_param :: "params \<Rightarrow> string \<Rightarrow> string option" where
  "string_param ps k = (case ps k of Some (VString s) \<Rightarrow> Some s | _ \<Rightarrow> None)"

definition bool_param :: "params \<Rightarrow> string \<Rightarrow> bool" where
  "bool_param ps k = (case ps k of Some (VBool b) \<Rightarrow> b | _ \<Rightarrow> False)"

definition int_param :: "params \<Rightarrow> string \<Rightarrow> int" where
  "int_param ps k = (case ps k of Some (VNumber i) \<Rightarrow> i | _ \<Rightarrow> 0)"

definition work_dir_param :: "params \<Rightarrow> string" where
  "work_dir_param ps = (case string_param ps ''__work_dir__'' of Some d \<Rightarrow> d | None \<Rightarrow> [])"

text \<open>The path a tool works on: every tool resolves its target the same way.\<close>

definition target_path :: "string \<Rightarrow> string \<Rightarrow> string" where
  "target_path workDir targetFile =
     (if IsAbs targetFile then targetFile
      else if workDir \<noteq> [] then Join workDir targetFile
      else targetFile)"

record ReadFileResult =
  rf_Content :: string
  rf_TotalLines :: int
  rf_StartLine :: int
  rf_EndLine :: int
  rf_FilePath :: string
  rf_LinesNotShown :: string
  rf_ReadEntireFile :: bool

record WriteFileResult =
  wf_TargetFile :: string
  wf_Written :: bool
  wf_Created :: bool
  wf_BytesWritten :: int
  wf_Message :: string
  wf_FileExists :: bool

record DeleteFileResult =
  df_TargetFile :: string
  df_Deleted :: bool
  df_Message :: string
  df_FileInfo :: string

record SearchReplaceResult =
  sr_FilePath :: string
  sr_OldString :: string
  sr_NewString :: string
  sr_Replaced :: bool
  sr_LineNumber :: int
  sr_OriginalLine :: string
  sr_NewLine :: string
  sr_Message :: string

record GrepMatch =
  gm_File :: string
  gm_Line :: int
  gm_Column :: int
  gm_Content :: string
  gm_Match :: string

record GrepSearchResult =
  gs_Query :: string
  gs_Matches :: "GrepMatch list"
  gs_TotalMatches :: int
  gs_MatchedFiles :: int
  gs_CaseSensitive :: bool
  gs_IncludePattern :: string
  gs_ExcludePattern :: string

datatype tool_value =
    ReadFileValue ReadFileResult
  | WriteFileValue WriteFileResult
  | DeleteFileValue DeleteFileResult
  | SearchReplaceValue SearchReplaceResult
  | GrepSearchValue GrepSearchResult

record ToolSchema =
  Name :: string
  Description :: string
  InputSchema :: val

text \<open>A tool function reads and changes the file system; it is a function of the
  parameters and the state, returning the error or the result, and the new state.\<close>

type_synonym ToolFunction = "params \<Rightarrow> world \<Rightarrow> (error + tool_value) \<times> world"

record Tool =
  Schema :: ToolSchema
  Function :: ToolFunction

record ToolResult =
  tr_Name :: string
  tr_Result :: "tool_value option"
  tr_Error :: string
  tr_Success :: bool

section \<open>The tool manager\<close>

text \<open>The registry and the working directory; the lock is not modelled (calls do
  not interleave here).\<close>

record DefaultToolManager =
  tools :: "string \<rightharpoonup> Tool"
  workDir :: string

definition NewDefaultToolManager :: "world \<Rightarrow> DefaultToolManager" where
  "NewDefaultToolManager w =
     \<lparr>tools = Map.empty,
      workDir = (case faults w OpGetwd [] of Some e \<Rightarrow> [] | None \<Rightarrow> cwd w)\<rparr>"

definition SetWorkDirectory :: "DefaultToolManager \<Rightarrow> string \<Rightarrow> DefaultToolManager" where
  "SetWorkDirectory tm d = tm\<lparr>workDir := d\<rparr>"

definition GetWorkDirectory :: "DefaultToolManager \<Rightarrow> string" where
  "GetWorkDirectory tm = workDir tm"

definition RegisterTool ::
  "DefaultToolManager \<Rightarrow> string \<Rightarrow> Tool \<Rightarrow> error option \<times> DefaultToolManager" where
  "RegisterTool tm name tool =
     (case tools tm name of
        Some t \<Rightarrow> (Some (ToolAlreadyRegistered name), tm)
      | None \<Rightarrow> (None, tm\<lparr>tools := (tools tm)(name \<mapsto> tool)\<rparr>))"

definition GetTool :: "DefaultToolManager \<Rightarrow> string \<Rightarrow> Tool option" where
  "GetTool tm name = tools tm name"


text \<open>
  \<open>ExecuteTool\<close> reads the manager and never writes it; the manager is returned
  with the result to make that part of the statement. \<open>None\<close> for the parameters is
  the nil map. The second component of the result is the program-level error, which no
  branch sets.
\<close>

definition not_found_text :: "string \<Rightarrow> string" where
  "not_found_text name = ''tool '' @ [CHR 0x27] @ name @ [CHR 0x27] @ '' not found''"

definition ExecuteTool ::
  "DefaultToolManager \<Rightarrow> string \<Rightarrow> params option \<Rightarrow> world
     \<Rightarrow> (ToolResult \<times> error option) \<times> DefaultToolManager \<times> world" where
  "ExecuteTool tm name ps w =
     (case tools tm name of
        None \<Rightarrow>
          ((\<lparr>tr_Name = name, tr_Result = None, tr_Error = not_found_text name,
             tr_Success = False\<rparr>, None), tm, w)
      | Some tool \<Rightarrow>
          (let params1 = (case ps of None \<Rightarrow> Map.empty | Some m \<Rightarrow> m);
               params2 = params1(''__work_dir__'' \<mapsto> VString (workDir tm))
           in case Function tool params2 w of
                (Inl err, w') \<Rightarrow>
                  ((\<lparr>tr_Name = name, tr_Result = None, tr_Error = Error err,
                     tr_Success = False\<rparr>, None), tm, w')
              | (Inr result, w') \<Rightarrow>
                  ((\<lparr>tr_Name = name, tr_Result = Some result, tr_Error = [],
                     tr_Success = True\<rparr>, None), tm, w')))"

definition ResolvePath :: "DefaultToolManager \<Rightarrow> string \<Rightarrow> string" where
  "ResolvePath tm path = (if IsAbs path then path else Join (workDir tm) path)"

text \<open>Registering a list of tools in order, collecting what each call returned.\<close>

fun register_all ::
  "DefaultToolManager \<Rightarrow> (string \<times> Tool) list \<Rightarrow> error option list \<times> DefaultToolManager" where
  "register_all tm [] = ([], tm)"
| "register_all tm ((name, tool) # rs) =
     (case RegisterTool tm name tool of
        (e, tm') \<Rightarrow> (case register_all tm' rs of (es, tm'') \<Rightarrow> (e # es, tm'')))"

section \<open>read_file\<close>

text \<open>
  The part of \<open>readFileFunction\<close> after the file has been read: the whole file, or
  the range after its checks. Line numbers are Go \<open>int\<close>s; after the clamps every
  value the arithmetic touches lies between 1 and the number of lines, so nothing wraps
  around and unbounded integers are exact.
\<close>

definition newline :: string where
  "newline = [CHR 0x0A]"

definition lines_not_shown :: "int \<Rightarrow> int \<Rightarrow> int \<Rightarrow> string" where
  "lines_not_shown startLineInt endLineInt totalLines =
     join_with ''; ''
       ((if startLineInt > 1
         then [''Lines 1-'' @ fmt_d (startLineInt - 1) @ '' not shown''] else []) @
        (if endLineInt < totalLines
         then [''Lines '' @ fmt_d (endLineInt + 1) @ ''-'' @ fmt_d totalLines @ '' not shown'']
         else []))"

definition read_lines ::
  "string \<Rightarrow> bool \<Rightarrow> int \<Rightarrow> int \<Rightarrow> string list \<Rightarrow> error + ReadFileResult" where
  "read_lines filePath shouldReadEntireFile startLine endLine lines =
     (let totalLines = int (length lines)
      in if shouldReadEntireFile
         then Inr \<lparr>rf_Content = join_with newline lines, rf_TotalLines = totalLines,
                   rf_StartLine = 1, rf_EndLine = totalLines, rf_FilePath = filePath,
                   rf_LinesNotShown = [], rf_ReadEntireFile = True\<rparr>
         else
           (let startLineInt = (if startLine < 1 then 1 else startLine)
            in if endLine < startLineInt then Inl (EndBeforeStart endLine startLineInt)
               else if startLineInt > totalLines
               then Inl (StartExceedsTotal startLineInt totalLines)
               else
                 (let endLineInt = (if endLine > totalLines then totalLines else endLine);
                      lineCount = endLineInt - startLineInt + 1
                  in if lineCount > 250 then Inl (TooManyLines lineCount)
                     else if lineCount < 200 \<and> totalLines \<ge> 200 \<and> endLineInt < totalLines
                     then Inl (MinLinesRequired startLineInt
                                 (if startLineInt + 199 > totalLines then totalLines
                                  else startLineInt + 199))
                     else Inr \<lparr>rf_Content =
                                 join_with newline
                                   (take (nat lineCount) (drop (nat (startLineInt - 1)) lines)),
                               rf_TotalLines = totalLines,
                               rf_StartLine = startLineInt, rf_EndLine = endLineInt,
                               rf_FilePath = filePath,
                               rf_LinesNotShown =
                                 lines_not_shown startLineInt endLineInt totalLines,
                               rf_ReadEntireFile = False\<rparr>)))"

definition readFileFunction :: ToolFunction where
  "readFileFunction ps w =
     (case string_param ps ''target_file'' of
        None \<Rightarrow> (Inl TargetFileRequired, w)
      | Some targetFile \<Rightarrow>
          if targetFile = [] then (Inl TargetFileRequired, w)
          else
            (let shouldReadEntireFile = bool_param ps ''should_read_entire_file'';
                 startLine = int_param ps ''start_line_one_indexed'';
                 endLine = int_param ps ''end_line_one_indexed_inclusive'';
                 filePath = target_path (work_dir_param ps) targetFile
             in case os_Stat w filePath of
                  StatNotExist \<Rightarrow> (Inl (FileNotFound filePath), w)
                | _ \<Rightarrow>
                    (case os_Open w filePath of
                       Inl e \<Rightarrow> (Inl (FailedToOpenFile e), w)
                     | Inr n \<Rightarrow>
                         (case scan_node w filePath n of
                            (lines, Some e) \<Rightarrow> (Inl (FailedToReadFile e), w)
                          | (lines, None) \<Rightarrow>
                              (map_sum id ReadFileValue
                                 (read_lines filePath shouldReadEntireFile startLine endLine lines),
                               w)))))"

section \<open>The security checks of write_file and delete_file\<close>

definition backslash :: string where
  "backslash = [CHR 0x5C]"

definition dangerousExtensions :: "string list" where
  "dangerousExtensions =
     [''.exe'', ''.dll'', ''.sys'', ''.bat'', ''.cmd'', ''.com'', ''.scr'',
      ''.pif'', ''.application'', ''.gadget'', ''.msi'', ''.msp'', ''.msc'']"

definition deleteDangerousPaths :: "string list" where
  "deleteDangerousPaths =
     [''/etc'', ''/bin'', ''/sbin'', ''/usr/bin'', ''/usr/sbin'', ''/boot'', ''/sys'', ''/proc'',
      ''C:'' @ backslash @ ''Windows'', ''C:'' @ backslash @ ''Program Files'',
      ''C:'' @ backslash @ ''Program Files (x86)'']"

definition deleteSystemFiles :: "string list" where
  "deleteSystemFiles =
     [''boot.ini'', ''ntldr'', ''bootmgr'', ''pagefile.sys'', ''hiberfil.sys'',
      ''.DS_Store'', ''Thumbs.db'', ''desktop.ini'']"

definition performSecurityChecks :: "world \<Rightarrow> string \<Rightarrow> error option" where
  "performSecurityChecks w filePath =
     (case Abs w filePath of
        Inl e \<Rightarrow> Some (FailedToGetAbs e)
      | Inr absPath \<Rightarrow>
          (case find (\<lambda>dangerousPath. HasPrefix absPath dangerousPath) deleteDangerousPaths of
             Some dangerousPath \<Rightarrow> Some (DeleteInSystemDirectory dangerousPath)
           | None \<Rightarrow>
               (let ext = Ext filePath
                in case find (\<lambda>dangerousExt. ext = dangerousExt) dangerousExtensions of
                     Some dangerousExt \<Rightarrow> Some (DeleteDangerousType ext)
                   | None \<Rightarrow>
                       (let fileName = Base filePath
                        in case find (\<lambda>systemFile. fileName = systemFile) deleteSystemFiles of
                             Some systemFile \<Rightarrow> Some (DeleteSystemFile systemFile)
                           | None \<Rightarrow> None))))"

definition writeDangerousPaths :: "string list" where
  "writeDangerousPaths =
     [''/etc'', ''/bin'', ''/sbin'', ''/usr/bin'', ''/usr/sbin'', ''/boot'', ''/sys'', ''/proc'',
      ''/dev'',
      ''C:'' @ backslash @ ''Windows'', ''C:'' @ backslash @ ''Program Files'',
      ''C:'' @ backslash @ ''Program Files (x86)'', ''C:'' @ backslash @ ''System32'']"

definition writeSystemFiles :: "string list" where
  "writeSystemFiles =
     [''boot.ini'', ''ntldr'', ''bootmgr'', ''pagefile.sys'', ''hiberfil.sys'',
      ''autoexec.bat'', ''config.sys'']"

definition dangerousChars :: "string list" where
  "dangerousChars = [''<'', ''>'', '':'', [CHR 0x22], ''|'', ''?'', ''*'']"

definition performWriteSecurityChecks :: "world \<Rightarrow> string \<Rightarrow> error option" where
  "performWriteSecurityChecks w filePath =
     (case Abs w filePath of
        Inl e \<Rightarrow> Some (FailedToGetAbs e)
      | Inr absPath \<Rightarrow>
          (case find (\<lambda>dangerousPath. HasPrefix absPath dangerousPath) writeDangerousPaths of
             Some dangerousPath \<Rightarrow> Some (WriteToSystemDirectory dangerousPath)
           | None \<Rightarrow>
               (let ext = ToLower (Ext filePath)
                in case find (\<lambda>dangerousExt. ext = dangerousExt) dangerousExtensions of
                     Some dangerousExt \<Rightarrow> Some (CreateDangerousType ext)
                   | None \<Rightarrow>
                       (let fileName = Base filePath
                        in case find (\<lambda>systemFile. ToLower fileName = systemFile)
                                  writeSystemFiles of
                             Some systemFile \<Rightarrow> Some (CreateSystemFile systemFile)
                           | None \<Rightarrow>
                               (case find (\<lambda>char. Contains fileName char) dangerousChars of
                                  Some char \<Rightarrow> Some (DangerousCharacter char)
                                | None \<Rightarrow> None)))))"

section \<open>write_file\<close>

definition writeFileFunction :: ToolFunction where
  "writeFileFunction ps w =
     (case string_param ps ''target_file'' of
        None \<Rightarrow> (Inl TargetFileRequired, w)
      | Some targetFile \<Rightarrow>
          if targetFile = [] then (Inl TargetFileRequired, w)
          else
            (case string_param ps ''content'' of
               None \<Rightarrow> (Inl ContentRequired, w)
             | Some content \<Rightarrow>
                 (let overwrite = bool_param ps ''overwrite'';
                      filePath = target_path (work_dir_param ps) targetFile;
                      fileExists = (case os_Stat w filePath of StatOk n \<Rightarrow> True | _ \<Rightarrow> False);
                      result = \<lparr>wf_TargetFile = filePath, wf_Written = False,
                                wf_Created = False, wf_BytesWritten = 0, wf_Message = [],
                                wf_FileExists = fileExists\<rparr>
                  in if fileExists \<and> \<not> overwrite
                     then (Inr (WriteFileValue
                             (result\<lparr>wf_Message := ''File exists and overwrite is not enabled''\<rparr>)),
                           w)
                     else
                       (case performWriteSecurityChecks w filePath of
                          Some err \<Rightarrow>
                            (Inr (WriteFileValue
                               (result\<lparr>wf_Message := ''Security check failed: '' @ Error err\<rparr>)),
                             w)
                        | None \<Rightarrow>
                            (case os_MkdirAll w (Dir_of filePath) of
                               Inl e \<Rightarrow>
                                 (Inr (WriteFileValue
                                    (result\<lparr>wf_Message := ''Failed to create directory: '' @ e\<rparr>)),
                                  w)
                             | Inr w1 \<Rightarrow>
                                 (case os_WriteFile w1 filePath content of
                                    Inl e \<Rightarrow>
                                      (Inr (WriteFileValue
                                         (result\<lparr>wf_Message := ''Failed to write file: '' @ e\<rparr>)),
                                       w1)
                                  | Inr w2 \<Rightarrow>
                                      (Inr (WriteFileValue
                                         (result\<lparr>wf_Written := True,
                                            wf_Created := \<not> fileExists,
                                            wf_BytesWritten := int (length content),
                                            wf_Message :=
                                              (if \<not> fileExists
                                               then ''File created successfully with '' @
                                                    fmt_d (int (length content)) @ '' bytes''
                                               else ''File overwritten successfully with '' @
                                                    fmt_d (int (length content)) @ '' bytes'')\<rparr>)),
                                       w2)))))))"

section \<open>delete_file\<close>

definition deleteFileFunction :: ToolFunction where
  "deleteFileFunction ps w =
     (case string_param ps ''target_file'' of
        None \<Rightarrow> (Inl TargetFileRequired, w)
      | Some targetFile \<Rightarrow>
          if targetFile = [] then (Inl TargetFileRequired, w)
          else
            (let filePath = target_path (work_dir_param ps) targetFile;
                 result = \<lparr>df_TargetFile = filePath, df_Deleted = False, df_Message = [],
                           df_FileInfo = []\<rparr>
             in case os_Stat w filePath of
                  StatNotExist \<Rightarrow>
                    (Inr (DeleteFileValue (result\<lparr>df_Message := ''File does not exist''\<rparr>)), w)
                | StatFailed e \<Rightarrow>
                    (Inr (DeleteFileValue
                       (result\<lparr>df_Message := ''Failed to access file: '' @ e\<rparr>)), w)
                | StatOk info \<Rightarrow>
                    if IsDir info
                    then (Inr (DeleteFileValue
                            (result\<lparr>df_FileInfo :=
                                      ''Directory with '' @ fmt_d (int (Size w filePath info)) @
                                      '' bytes'',
                                    df_Message := ''Cannot delete directories with this tool''\<rparr>)),
                          w)
                    else
                      (let result1 = result\<lparr>df_FileInfo :=
                                       ''File with '' @ fmt_d (int (Size w filePath info)) @
                                       '' bytes''\<rparr>
                       in case performSecurityChecks w filePath of
                            Some err \<Rightarrow>
                              (Inr (DeleteFileValue
                                 (result1\<lparr>df_Message :=
                                    ''Security check failed: '' @ Error err\<rparr>)), w)
                          | None \<Rightarrow>
                              (case os_Remove w filePath of
                                 Inl e \<Rightarrow>
                                   (Inr (DeleteFileValue
                                      (result1\<lparr>df_Message :=
                                         ''Failed to delete file: '' @ e\<rparr>)), w)
                               | Inr w' \<Rightarrow>
                                   (Inr (DeleteFileValue
                                      (result1\<lparr>df_Deleted := True,
                                         df_Message := ''File successfully deleted''\<rparr>)),
                                    w')))))"

section \<open>search_replace\<close>





section \<open>grep_search: the fallback scanner\<close>

text \<open>
  Libraries whose algorithms are not part of the program are parameters: the compiled
  regular expression is its matching predicate, \<open>filepath.Match\<close> is its result with an
  error read as no match (the source drops the error), and the JSON codec is used by
  the client below.
\<close>

record libs =
  regexp_Compile :: "string \<Rightarrow> string + (string \<Rightarrow> bool)"
  filepath_Match :: "string \<Rightarrow> string \<Rightarrow> bool"
  json_Unmarshal :: "string \<Rightarrow> string + params option"
  json_MarshalIndent :: "tool_value option \<Rightarrow> string + string"
  Sprint_v :: "tool_value option \<Rightarrow> string"

definition extractMatch :: "string \<Rightarrow> string \<Rightarrow> bool \<Rightarrow> string" where
  "extractMatch content query caseSensitive =
     (let content1 = (if \<not> caseSensitive then ToLower content else content);
          query1 = (if \<not> caseSensitive then ToLower query else query)
      in case Index content1 query1 of
           Some idx \<Rightarrow> take (length query1) (drop idx content1)
         | None \<Rightarrow> query1)"

text \<open>
  The loop of \<open>searchInFile\<close> over the tokens the scanner yields, with the error the
  scanner ends on. The condition tests \<open>Scan()\<close> first and the counter second: with the
  counter at 50 the loop ends on the next token, and \<open>Err()\<close> is nil then.
\<close>

fun search_loop ::
  "(string \<Rightarrow> bool) \<Rightarrow> string \<Rightarrow> bool \<Rightarrow> string \<Rightarrow> string list \<Rightarrow> string option
     \<Rightarrow> int \<Rightarrow> int \<Rightarrow> GrepMatch list \<Rightarrow> GrepMatch list \<times> string option" where
  "search_loop regex query caseSensitive filePath [] scanErr lineNumber matchCount matches =
     (matches, scanErr)"
| "search_loop regex query caseSensitive filePath (line # rest) scanErr lineNumber matchCount
       matches =
     (if matchCount < 50
      then
        (if regex line
         then search_loop regex query caseSensitive filePath rest scanErr (lineNumber + 1)
                (matchCount + 1)
                (matches @ [\<lparr>gm_File = filePath, gm_Line = lineNumber + 1, gm_Column = 0,
                              gm_Content = line,
                              gm_Match = extractMatch line query caseSensitive\<rparr>])
         else search_loop regex query caseSensitive filePath rest scanErr (lineNumber + 1)
                matchCount matches)
      else (matches, None))"

definition searchInFile ::
  "world \<Rightarrow> string \<Rightarrow> (string \<Rightarrow> bool) \<Rightarrow> bool \<Rightarrow> string \<Rightarrow> GrepMatch list
     \<Rightarrow> GrepMatch list \<times> string option" where
  "searchInFile w filePath regex caseSensitive query matches =
     (case os_Open w filePath of
        Inl e \<Rightarrow> (matches, None)
      | Inr n \<Rightarrow>
          (case scan_node w filePath n of
             (lines, scanErr) \<Rightarrow>
               search_loop regex query caseSensitive filePath lines scanErr 0 0 matches))"

text \<open>The callback of \<open>filepath.Walk\<close>, applied to the visits in order; the walk
  stops at the first error the callback returns.\<close>

fun walk_loop ::
  "libs \<Rightarrow> world \<Rightarrow> (string \<Rightarrow> bool) \<Rightarrow> bool \<Rightarrow> string \<Rightarrow> string \<Rightarrow> string
     \<Rightarrow> walk_entry list \<Rightarrow> GrepMatch list \<Rightarrow> GrepMatch list \<times> string option" where
  "walk_loop L w regex caseSensitive query includePattern excludePattern [] matches =
     (matches, None)"
| "walk_loop L w regex caseSensitive query includePattern excludePattern (WalkError path # es)
       matches =
     walk_loop L w regex caseSensitive query includePattern excludePattern es matches"
| "walk_loop L w regex caseSensitive query includePattern excludePattern (WalkDir path # es)
       matches =
     walk_loop L w regex caseSensitive query includePattern excludePattern es matches"
| "walk_loop L w regex caseSensitive query includePattern excludePattern (WalkFile path # es)
       matches =
     (if includePattern \<noteq> [] \<and> \<not> filepath_Match L includePattern (Base path)
      then walk_loop L w regex caseSensitive query includePattern excludePattern es matches
      else if excludePattern \<noteq> [] \<and> filepath_Match L excludePattern (Base path)
      then walk_loop L w regex caseSensitive query includePattern excludePattern es matches
      else
        (case searchInFile w path regex caseSensitive query matches of
           (matches', Some e) \<Rightarrow> (matches', Some e)
         | (matches', None) \<Rightarrow>
             walk_loop L w regex caseSensitive query includePattern excludePattern es matches'))"

definition fallbackGrepSearch ::
  "libs \<Rightarrow> world \<Rightarrow> string \<Rightarrow> bool \<Rightarrow> string \<Rightarrow> string \<Rightarrow> string
     \<Rightarrow> error + GrepSearchResult" where
  "fallbackGrepSearch L w query caseSensitive includePattern excludePattern workDirectory =
     (let regexPattern = (if \<not> caseSensitive then ''(?i)'' @ query else query)
      in case regexp_Compile L regexPattern of
           Inl e \<Rightarrow> Inl (InvalidRegex e)
         | Inr regex \<Rightarrow>
             (let searchPath = (if workDirectory \<noteq> [] then workDirectory else ''.'')
              in case walk_loop L w regex caseSensitive query includePattern excludePattern
                        (walk w searchPath) [] of
                   (matches, Some e) \<Rightarrow> Inl (ScanError e)
                 | (matches, None) \<Rightarrow>
                     Inr \<lparr>gs_Query = query, gs_Matches = matches,
                          gs_TotalMatches = int (length matches),
                          gs_MatchedFiles = int (length (remdups (map gm_File matches))),
                          gs_CaseSensitive = caseSensitive,
                          gs_IncludePattern = includePattern,
                          gs_ExcludePattern = excludePattern\<rparr>))"

section \<open>The client: streamed responses and the conversation loop\<close>

text \<open>
  The types of the chat library the loop reads. \<open>ToolCall\<close> is the library's record
  of a call or of a fragment of one (its \<open>Function.Name\<close> and \<open>Function.Arguments\<close>
  are \<open>tc_Name\<close> and \<open>tc_Arguments\<close>); the index is a pointer to an \<open>int\<close> in
  the source, \<open>None\<close> for nil.
\<close>

record ToolCall =
  tc_Index :: "int option"
  tc_ID :: string
  tc_Type :: string
  tc_Name :: string
  tc_Arguments :: string

record ChatCompletionMessage =
  msg_Role :: string
  msg_Content :: string
  msg_ToolCalls :: "ToolCall list"
  msg_ToolCallID :: string

record Delta =
  d_Content :: string
  d_ToolCalls :: "ToolCall list"

text \<open>A response of the stream: the deltas of its choices.\<close>

record ChatCompletionStreamResponse =
  Choices :: "Delta list"

text \<open>
  A stream is what \<open>Recv\<close> returns until its first error: finitely many responses,
  then the text of that error (\<open>EOF\<close> at the regular end). A stream that never ends is
  outside the model.
\<close>

record Stream =
  recvs :: "ChatCompletionStreamResponse list"
  final_error :: string

record ChatCompletionRequest =
  req_Model :: string
  req_Messages :: "ChatCompletionMessage list"
  req_Stream :: bool
  req_Tools :: "ToolSchema set"

text \<open>
  The client. \<open>CreateChatCompletionStream\<close> is the model provider: given the number
  of requests made before and the request, an error or a stream.
\<close>

record Client =
  CreateChatCompletionStream :: "nat \<Rightarrow> ChatCompletionRequest \<Rightarrow> string + Stream"
  toolManager :: "DefaultToolManager option"
  model :: string


definition maxIterations :: nat where
  "maxIterations = 5"

text \<open>What the loop prints, as events.\<close>

datatype out_event =
    PrintContent string
  | PrintNewline
  | PrintCalling string
  | PrintDebug string string
  | PrintFailed string string
  | PrintDone string

text \<open>
  Merging one fragment into the calls assembled so far. The slice is grown until the
  index is in range, then indexed; indexing at a negative index is a run-time panic
  in Go, which is the \<open>Inl\<close> result here.
\<close>

datatype panic = IndexOutOfRange int nat

definition emptyToolCall :: ToolCall where
  "emptyToolCall =
     \<lparr>tc_Index = None, tc_ID = [], tc_Type = [], tc_Name = [], tc_Arguments = []\<rparr>"

definition grow :: "int \<Rightarrow> ToolCall list \<Rightarrow> ToolCall list" where
  "grow index toolCalls =
     toolCalls @ replicate (nat (index + 1) - length toolCalls) emptyToolCall"

definition set_at ::
  "int \<Rightarrow> (ToolCall \<Rightarrow> ToolCall) \<Rightarrow> ToolCall list \<Rightarrow> panic + ToolCall list" where
  "set_at index f toolCalls =
     (if 0 \<le> index \<and> nat index < length toolCalls
      then Inr (toolCalls[nat index := f (toolCalls ! nat index)])
      else Inl (IndexOutOfRange index (length toolCalls)))"

definition and_then :: "'e + 'a \<Rightarrow> ('a \<Rightarrow> 'e + 'b) \<Rightarrow> 'e + 'b" where
  "and_then r f = (case r of Inl e \<Rightarrow> Inl e | Inr a \<Rightarrow> f a)"

definition merge_fragment :: "ToolCall list \<Rightarrow> ToolCall \<Rightarrow> panic + ToolCall list" where
  "merge_fragment toolCalls toolCall =
     (case tc_Index toolCall of
        None \<Rightarrow> Inr toolCalls
      | Some index \<Rightarrow>
          and_then
            (if tc_ID toolCall \<noteq> []
             then set_at index
                    (\<lambda>t. t\<lparr>tc_ID := tc_ID toolCall, tc_Type := tc_Type toolCall\<rparr>)
                    (grow index toolCalls)
             else Inr (grow index toolCalls))
            (\<lambda>t1. and_then
               (if tc_Name toolCall \<noteq> []
                then set_at index (\<lambda>t. t\<lparr>tc_Name := tc_Name toolCall\<rparr>) t1
                else Inr t1)
               (\<lambda>t2. if tc_Arguments toolCall \<noteq> []
                     then set_at index
                            (\<lambda>t. t\<lparr>tc_Arguments := tc_Arguments t @ tc_Arguments toolCall\<rparr>) t2
                     else Inr t2)))"

fun merge_fragments :: "ToolCall list \<Rightarrow> ToolCall list \<Rightarrow> panic + ToolCall list" where
  "merge_fragments toolCalls [] = Inr toolCalls"
| "merge_fragments toolCalls (toolCall # rest) =
     and_then (merge_fragment toolCalls toolCall) (\<lambda>toolCalls'. merge_fragments toolCalls' rest)"

text \<open>
  Draining the responses of one stream: the content buffer, the tool calls and what was
  printed, with the panic that stopped it, if one did.
\<close>

fun drain ::
  "ChatCompletionStreamResponse list \<Rightarrow> string \<Rightarrow> ToolCall list \<Rightarrow> out_event list
     \<Rightarrow> (string \<times> ToolCall list \<times> out_event list) \<times> panic option" where
  "drain [] contentBuffer toolCalls out = ((contentBuffer, toolCalls, out), None)"
| "drain (response # rest) contentBuffer toolCalls out =
     (case Choices response of
        [] \<Rightarrow> drain rest contentBuffer toolCalls out
      | delta # others \<Rightarrow>
          (let contentBuffer1 =
                 (if d_Content delta \<noteq> [] then contentBuffer @ d_Content delta
                  else contentBuffer);
               out1 =
                 (if d_Content delta \<noteq> [] then out @ [PrintContent (d_Content delta)]
                  else out)
           in case merge_fragments toolCalls (d_ToolCalls delta) of
                Inl p \<Rightarrow> ((contentBuffer1, toolCalls, out1), Some p)
              | Inr toolCalls1 \<Rightarrow> drain rest contentBuffer1 toolCalls1 out1))"

text \<open>\<open>executeToolCall\<close>: the text for the tool reply, or an error.\<close>

definition executeToolCall ::
  "Client \<Rightarrow> libs \<Rightarrow> ToolCall \<Rightarrow> world \<Rightarrow> (string \<times> error option) \<times> world" where
  "executeToolCall c L toolCall w =
     (case toolManager c of
        None \<Rightarrow> (([], Some ToolManagerNotSet), w)
      | Some tm \<Rightarrow>
          (case json_Unmarshal L (tc_Arguments toolCall) of
             Inl e \<Rightarrow> (([], Some (FailedToParseArguments e)), w)
           | Inr ps \<Rightarrow>
               (case ExecuteTool tm (tc_Name toolCall) ps w of
                  ((result, Some err), tm', w') \<Rightarrow>
                    (([], Some (FailedToExecuteTool (Error err))), w')
                | ((result, None), tm', w') \<Rightarrow>
                    if \<not> tr_Success result
                    then ((''Tool execution failed: '' @ tr_Error result, None), w')
                    else
                      (case json_MarshalIndent L (tr_Result result) of
                         Inl e \<Rightarrow> ((''Tool result: '' @ Sprint_v L (tr_Result result), None), w')
                       | Inr resultJSON \<Rightarrow> ((resultJSON, None), w')))))"

text \<open>The state of one query: the history, the file system, what was printed, and
  the requests sent to the provider so far (one per round).\<close>

record query_state =
  qs_messages :: "ChatCompletionMessage list"
  qs_world :: world
  qs_out :: "out_event list"
  qs_requests :: "ChatCompletionRequest list"

fun run_tool_calls :: "Client \<Rightarrow> libs \<Rightarrow> ToolCall list \<Rightarrow> query_state \<Rightarrow> query_state" where
  "run_tool_calls c L [] st = st"
| "run_tool_calls c L (toolCall # rest) st =
     (if tc_Type toolCall = ''function'' \<and> tc_Name toolCall \<noteq> []
      then
        (case executeToolCall c L toolCall (qs_world st) of
           ((result, err), w') \<Rightarrow>
             run_tool_calls c L rest
               (st\<lparr>qs_world := w',
                   qs_out := qs_out st @
                     [PrintCalling (tc_Name toolCall),
                      PrintDebug (tc_ID toolCall) (tc_Arguments toolCall),
                      (case err of
                         Some e \<Rightarrow> PrintFailed (tc_Name toolCall) (Error e)
                       | None \<Rightarrow> PrintDone (tc_Name toolCall))],
                   qs_messages := qs_messages st @
                     [\<lparr>msg_Role = ''tool'',
                       msg_Content =
                         (case err of Some e \<Rightarrow> ''Error: '' @ Error e | None \<Rightarrow> result),
                       msg_ToolCalls = [],
                       msg_ToolCallID = tc_ID toolCall\<rparr>]\<rparr>))
      else run_tool_calls c L rest st)"

datatype outcome = Returned "error option" | Panicked panic

text \<open>The loop of \<open>StreamQueryWithTools\<close>, from round \<open>iteration\<close> on.\<close>

function query_loop ::
  "Client \<Rightarrow> libs \<Rightarrow> ToolSchema set \<Rightarrow> nat \<Rightarrow> query_state \<Rightarrow> outcome \<times> query_state" where
  "query_loop c L toolDefs iteration st =
     (if iteration < maxIterations
      then
        (let req = \<lparr>req_Model = model c, req_Messages = qs_messages st, req_Stream = True,
                    req_Tools = toolDefs\<rparr>;
             st1 = st\<lparr>qs_requests := qs_requests st @ [req]\<rparr>
         in case CreateChatCompletionStream c iteration req of
              Inl e \<Rightarrow> (Returned (Some (FailedToCreateStream e)), st1)
            | Inr stream \<Rightarrow>
                (case drain (recvs stream) [] [] (qs_out st1) of
                   ((contentBuffer, toolCalls, out), Some p) \<Rightarrow>
                     (Panicked p, st1\<lparr>qs_out := out\<rparr>)
                 | ((contentBuffer, toolCalls, out), None) \<Rightarrow>
                     if final_error stream \<noteq> ''EOF''
                     then (Returned (Some (StreamError (final_error stream))),
                           st1\<lparr>qs_out := out\<rparr>)
                     else if toolCalls = []
                     then (Returned None,
                           st1\<lparr>qs_out := (if contentBuffer \<noteq> [] then out @ [PrintNewline]
                                           else out)\<rparr>)
                     else
                       query_loop c L toolDefs (iteration + 1)
                         (run_tool_calls c L toolCalls
                            (st1\<lparr>qs_out := out,
                                 qs_messages := qs_messages st1 @
                                   [\<lparr>msg_Role = ''assistant'', msg_Content = contentBuffer,
                                     msg_ToolCalls = toolCalls, msg_ToolCallID = []\<rparr>]\<rparr>))))
      else (Returned None, st))"
  by pat_completeness auto
termination
  by (relation "measure (\<lambda>(c, L, toolDefs, iteration, st). maxIterations - iteration)") auto

declare query_loop.simps [simp del]


section \<open>Notions the statements use\<close>

text \<open>
  A regular file that can be read, with the lines the scanner yields from it; and the
  text of a file that holds given lines, each ended by a newline.
\<close>

definition readable_lines :: "world \<Rightarrow> string \<Rightarrow> string list \<Rightarrow> bool" where
  "readable_lines w p ls =
     (faults w OpStat p = None \<and> faults w OpOpen p = None \<and> faults w OpRead p = None \<and>
      (case nodes w (resolve w p) of
         Some (File content) \<Rightarrow> scan_tokens (raw_lines content) = (ls, None)
       | _ \<Rightarrow> False))"

definition text_of_lines :: "string list \<Rightarrow> string" where
  "text_of_lines ls = concat (map (\<lambda>l. l @ newline) ls)"

text \<open>The fragments of a stream in the order the loop merges them: those of the first
  choice of each response; and those that carry a given index, in arrival order.\<close>

definition fragments_of :: "ChatCompletionStreamResponse list \<Rightarrow> ToolCall list" where
  "fragments_of rs =
     concat (map (\<lambda>r. case Choices r of [] \<Rightarrow> [] | delta # others \<Rightarrow> d_ToolCalls delta) rs)"

definition at_index :: "nat \<Rightarrow> ToolCall list \<Rightarrow> ToolCall list" where
  "at_index i fs = filter (\<lambda>f. tc_Index f = Some (int i)) fs"

text \<open>The last non-empty string of a list (a default when there is none), and the
  first one.\<close>

definition last_nonempty :: "string \<Rightarrow> string list \<Rightarrow> string" where
  "last_nonempty d xs = (case filter (\<lambda>s. s \<noteq> []) xs of [] \<Rightarrow> d | y # ys \<Rightarrow> last (y # ys))"

definition first_nonempty :: "string list \<Rightarrow> string" where
  "first_nonempty xs = (case filter (\<lambda>s. s \<noteq> []) xs of [] \<Rightarrow> [] | y # ys \<Rightarrow> y)"

text \<open>The length the slice is grown to for a fragment, and for a list of fragments: one
  more than the largest index.\<close>

definition slots_needed :: "ToolCall \<Rightarrow> nat" where
  "slots_needed f = (case tc_Index f of None \<Rightarrow> 0 | Some i \<Rightarrow> nat (i + 1))"

definition slot_count :: "ToolCall list \<Rightarrow> nat" where
  "slot_count fs = foldr (\<lambda>f n. max (slots_needed f) n) fs 0"

text \<open>The tool calls assembled from the responses of a stream.\<close>

definition drained_calls :: "ChatCompletionStreamResponse list \<Rightarrow> ToolCall list" where
  "drained_calls rs = fst (snd (fst (drain rs [] [] [])))"

text \<open>Position \<open>i\<close> of the assembled calls, read as the empty call beyond the end; the
  effect of one fragment on the call at its index; and of a list of fragments in order.\<close>

definition slot :: "ToolCall list \<Rightarrow> nat \<Rightarrow> ToolCall" where
  "slot tcs i = (if i < length tcs then tcs ! i else emptyToolCall)"

definition merged :: "ToolCall \<Rightarrow> ToolCall \<Rightarrow> ToolCall" where
  "merged f t =
     t\<lparr>tc_ID := (if tc_ID f \<noteq> [] then tc_ID f else tc_ID t),
       tc_Type := (if tc_ID f \<noteq> [] then tc_Type f else tc_Type t),
       tc_Name := (if tc_Name f \<noteq> [] then tc_Name f else tc_Name t),
       tc_Arguments := tc_Arguments t @ tc_Arguments f\<rparr>"

definition assemble :: "ToolCall \<Rightarrow> ToolCall list \<Rightarrow> ToolCall" where
  "assemble t fs = foldl (\<lambda>t f. merged f t) t fs"


section \<open>Concrete instances\<close>

text \<open>An empty file system without faults, and a tool with a given name and function.\<close>

definition example_world :: world where
  "example_world =
     \<lparr>nodes = Map.empty, faults = (\<lambda>operation p. None), cwd = ''/work'',
      dir_size = (\<lambda>p. 4096), walk = (\<lambda>p. [])\<rparr>"

definition tool_named :: "string \<Rightarrow> ToolFunction \<Rightarrow> Tool" where
  "tool_named n f = \<lparr>Schema = \<lparr>Name = n, Description = [], InputSchema = VNull\<rparr>, Function = f\<rparr>"

text \<open>A file of 300 lines in the working directory, and a request for a range of it.\<close>

definition big_world :: world where
  "big_world =
     example_world\<lparr>nodes := [''/work/big.txt'' \<mapsto> File (text_of_lines (replicate 300 ''x''))]\<rparr>"

definition read_params :: "int \<Rightarrow> int \<Rightarrow> params" where
  "read_params s e =
     [''target_file'' \<mapsto> VString ''big.txt'',
      ''should_read_entire_file'' \<mapsto> VBool False,
      ''start_line_one_indexed'' \<mapsto> VNumber s,
      ''end_line_one_indexed_inclusive'' \<mapsto> VNumber e,
      ''__work_dir__'' \<mapsto> VString ''/work'']"

text \<open>An existing file, a request to write it without the overwrite flag, and a manager
  with write_file registered.\<close>

definition notes_world :: world where
  "notes_world = example_world\<lparr>nodes := [''/work/notes.txt'' \<mapsto> File ''old text'']\<rparr>"

definition write_params :: params where
  "write_params = [''target_file'' \<mapsto> VString ''notes.txt'', ''content'' \<mapsto> VString ''new text'']"

definition write_manager :: DefaultToolManager where
  "write_manager =
     snd (RegisterTool (NewDefaultToolManager notes_world) ''write_file''
            (tool_named ''write_file'' writeFileFunction))"




text \<open>Two regular files that differ in the case of the extension only, and a request to
  delete one.\<close>

definition exe_world :: world where
  "exe_world =
     example_world\<lparr>nodes := [''/work/tool.EXE'' \<mapsto> File ''MZ'', ''/work/tool.exe'' \<mapsto> File ''MZ'']\<rparr>"

definition delete_params :: "string \<Rightarrow> params" where
  "delete_params t = [''target_file'' \<mapsto> VString t, ''__work_dir__'' \<mapsto> VString ''/work'']"

text \<open>Libraries for concrete runs: the compiled pattern matches the lines that contain
  it, every glob matches, and the JSON codec yields an empty object.\<close>

definition substring_libs :: libs where
  "substring_libs =
     \<lparr>regexp_Compile = (\<lambda>pattern. Inr (\<lambda>line. Contains line pattern)),
      filepath_Match = (\<lambda>pattern name. True),
      json_Unmarshal = (\<lambda>text. Inr (Some Map.empty)),
      json_MarshalIndent = (\<lambda>v. Inr ''{}''),
      Sprint_v = (\<lambda>v. ''{}'')\<rparr>"

text \<open>Two files of 50 matching lines each under the working directory, visited in this
  order.\<close>

definition needle_world :: world where
  "needle_world =
     example_world
       \<lparr>nodes := [''/work/a.txt'' \<mapsto> File (text_of_lines (replicate 50 ''needle'')),
                   ''/work/b.txt'' \<mapsto> File (text_of_lines (replicate 50 ''needle''))],
        walk := (\<lambda>root. [WalkDir ''/work'', WalkFile ''/work/a.txt'', WalkFile ''/work/b.txt''])\<rparr>"

text \<open>Streams for concrete runs: two calls whose fragments interleave, and one index
  that receives two identifiers.\<close>

definition fragment :: "int \<Rightarrow> string \<Rightarrow> string \<Rightarrow> string \<Rightarrow> string \<Rightarrow> ToolCall" where
  "fragment i ident type name arguments =
     \<lparr>tc_Index = Some i, tc_ID = ident, tc_Type = type, tc_Name = name,
      tc_Arguments = arguments\<rparr>"

definition response :: "string \<Rightarrow> ToolCall list \<Rightarrow> ChatCompletionStreamResponse" where
  "response content fs = \<lparr>Choices = [\<lparr>d_Content = content, d_ToolCalls = fs\<rparr>]\<rparr>"

definition two_calls_stream :: "ChatCompletionStreamResponse list" where
  "two_calls_stream =
     [response ''Reading.'' [fragment 1 ''call_b'' ''function'' ''write_file'' ''{target_file:''],
      response [] [fragment 0 ''call_a'' ''function'' ''read_file'' ''{target_'',
                   fragment 1 [] [] [] ''b.txt}''],
      response [] [fragment 0 [] [] [] ''file:a.txt}'']]"

definition two_ids_stream :: "ChatCompletionStreamResponse list" where
  "two_ids_stream =
     [response [] [fragment 2 ''call_a'' ''function'' ''read_file'' ''{''],
      response [] [fragment 2 ''call_b'' ''function'' [] ''}'']]"



section \<open>The registry\<close>

lemma GetTool_register_all:
  "GetTool (snd (register_all tm regs)) n =
     (case GetTool tm n of Some t \<Rightarrow> Some t | None \<Rightarrow> map_of regs n)"
proof (induction regs arbitrary: tm)
  case Nil
  show ?case by (simp split: option.split)
next
  case (Cons r regs)
  obtain name tool where r: "r = (name, tool)" by (cases r)
  show ?case
  proof (cases "tools tm name")
    case None
    then show ?thesis
      using Cons.IH [of "tm\<lparr>tools := (tools tm)(name \<mapsto> tool)\<rparr>"]
      by (auto simp add: r RegisterTool_def GetTool_def split: prod.split option.split)
  next
    case (Some t)
    then show ?thesis
      using Cons.IH [of tm]
      by (auto simp add: r RegisterTool_def GetTool_def split: prod.split option.split)
  qed
qed

text \<open>
  C3. Registering under a name that is present returns the duplicate-name error and
  leaves the manager as it was; registering under a fresh name returns no error, stores
  the tool under that name and changes nothing else. Hence, whatever is registered in
  whatever order on a new manager, each name is bound to the tool of its first
  registration.
\<close>

theorem RegisterTool_first_wins:
  "(tools tm name \<noteq> None \<longrightarrow>
      RegisterTool tm name tool = (Some (ToolAlreadyRegistered name), tm)) \<and>
   (tools tm name = None \<longrightarrow>
      fst (RegisterTool tm name tool) = None \<and>
      GetTool (snd (RegisterTool tm name tool)) name = Some tool \<and>
      (\<forall>n. n \<noteq> name \<longrightarrow> GetTool (snd (RegisterTool tm name tool)) n = GetTool tm n) \<and>
      workDir (snd (RegisterTool tm name tool)) = workDir tm) \<and>
   (\<forall>n. GetTool (snd (register_all (NewDefaultToolManager w) regs)) n = map_of regs n)"
proof -
  have dup: "tools tm name \<noteq> None \<longrightarrow>
      RegisterTool tm name tool = (Some (ToolAlreadyRegistered name), tm)"
    by (auto simp: RegisterTool_def)
  have fresh: "tools tm name = None \<longrightarrow>
      fst (RegisterTool tm name tool) = None \<and>
      GetTool (snd (RegisterTool tm name tool)) name = Some tool \<and>
      (\<forall>n. n \<noteq> name \<longrightarrow> GetTool (snd (RegisterTool tm name tool)) n = GetTool tm n) \<and>
      workDir (snd (RegisterTool tm name tool)) = workDir tm"
    by (simp add: RegisterTool_def GetTool_def)
  have all: "\<forall>n. GetTool (snd (register_all (NewDefaultToolManager w) regs)) n = map_of regs n"
    by (simp add: GetTool_register_all) (simp add: GetTool_def NewDefaultToolManager_def)
  from dup fresh all show ?thesis by blast
qed

theorem RegisterTool_first_wins_witness:
  "RegisterTool
     (snd (RegisterTool (NewDefaultToolManager example_world) ''read_file''
             (tool_named ''read_file'' readFileFunction)))
     ''read_file'' (tool_named ''read_file'' writeFileFunction)
   = (Some (ToolAlreadyRegistered ''read_file''),
      snd (RegisterTool (NewDefaultToolManager example_world) ''read_file''
             (tool_named ''read_file'' readFileFunction))) \<and>
   GetTool
     (snd (RegisterTool (NewDefaultToolManager example_world) ''read_file''
             (tool_named ''read_file'' readFileFunction)))
     ''read_file'' = Some (tool_named ''read_file'' readFileFunction)"
proof -
  let ?tm0 = "NewDefaultToolManager example_world"
  let ?a = "tool_named ''read_file'' readFileFunction"
  let ?tm1 = "snd (RegisterTool ?tm0 ''read_file'' ?a)"
  have fresh: "tools ?tm0 ''read_file'' = None"
    by (simp add: NewDefaultToolManager_def)
  have stored: "GetTool ?tm1 ''read_file'' = Some ?a"
    using RegisterTool_first_wins [of ?tm0 "''read_file''" ?a example_world "[]"] fresh
    by blast
  then have present: "tools ?tm1 ''read_file'' \<noteq> None"
    by (simp add: GetTool_def)
  show ?thesis
    using RegisterTool_first_wins
            [of ?tm1 "''read_file''" "tool_named ''read_file'' writeFileFunction"
                example_world "[]"]
          present stored
    by blast
qed

text \<open>
  C4. Executing a name that is not registered returns a result with \<open>success = false\<close>
  and the error text \<open>tool '<name>' not found\<close>, with no program-level error; the
  manager and the file system are as before. No tool function runs.
\<close>

theorem ExecuteTool_not_found:
  "tools tm name = None \<Longrightarrow>
     ExecuteTool tm name ps w =
       ((\<lparr>tr_Name = name, tr_Result = None,
          tr_Error = ''tool '' @ [CHR 0x27] @ name @ [CHR 0x27] @ '' not found'',
          tr_Success = False\<rparr>, None), tm, w)"
  by (simp add: ExecuteTool_def not_found_text_def)

theorem ExecuteTool_not_found_witness:
  "ExecuteTool (NewDefaultToolManager example_world) ''nonexistent'' (Some Map.empty)
     example_world =
       ((\<lparr>tr_Name = ''nonexistent'', tr_Result = None,
          tr_Error = ''tool '' @ [CHR 0x27] @ ''nonexistent'' @ [CHR 0x27] @ '' not found'',
          tr_Success = False\<rparr>, None), NewDefaultToolManager example_world, example_world)"
proof -
  have "tools (NewDefaultToolManager example_world) ''nonexistent'' = None"
    by (simp add: NewDefaultToolManager_def)
  then show ?thesis
    by (rule ExecuteTool_not_found)
qed

section \<open>read_file: the limits on a range\<close>

lemma split_on_line:
  "c \<notin> set l \<Longrightarrow> split_on c (l @ c # rest) = l # split_on c rest"
  by (induction l) auto

lemma split_on_text:
  "\<forall>l \<in> set ls. c \<notin> set l \<Longrightarrow> split_on c (concat (map (\<lambda>l. l @ [c]) ls)) = ls @ [[]]"
  by (induction ls) (simp_all add: split_on_line)

lemma raw_lines_text_of_lines:
  "\<forall>l \<in> set ls. CHR 0x0A \<notin> set l \<Longrightarrow> raw_lines (text_of_lines ls) = ls"
  by (simp add: raw_lines_def text_of_lines_def newline_def split_on_text)

lemma scan_tokens_plain:
  "\<forall>l \<in> set ls. length l < MaxScanTokenSize \<and> dropCR l = l \<Longrightarrow> scan_tokens ls = (ls, None)"
  by (induction ls) auto

lemma readFileFunction_readable:
  assumes "string_param ps ''target_file'' = Some t" and "t \<noteq> []"
    and "readable_lines w (target_path (work_dir_param ps) t) ls"
  shows "readFileFunction ps w =
           (map_sum id ReadFileValue
              (read_lines (target_path (work_dir_param ps) t)
                 (bool_param ps ''should_read_entire_file'')
                 (int_param ps ''start_line_one_indexed'')
                 (int_param ps ''end_line_one_indexed_inclusive'') ls), w)"
  using assms
  by (auto simp: readFileFunction_def readable_lines_def os_Stat_def os_Open_def scan_node_def
        Let_def split: option.splits node.splits)

lemma big_world_readable:
  "readable_lines big_world ''/work/big.txt'' (replicate 300 ''x'')"
proof -
  have "resolve big_world ''/work/big.txt'' = ''/work/big.txt''"
    by (simp add: resolve_def Clean_def IsAbs_def HasPrefix_def)
  moreover have "scan_tokens (raw_lines (text_of_lines (replicate 300 ''x''))) = (replicate 300 ''x'', None)"
    by (simp add: raw_lines_text_of_lines scan_tokens_plain MaxScanTokenSize_def dropCR_def)
  ultimately show ?thesis
    by (simp add: readable_lines_def big_world_def example_world_def)
qed

lemma read_params_target:
  "string_param (read_params s e) ''target_file'' = Some ''big.txt'' \<and>
   target_path (work_dir_param (read_params s e)) ''big.txt'' = ''/work/big.txt'' \<and>
   \<not> bool_param (read_params s e) ''should_read_entire_file'' \<and>
   int_param (read_params s e) ''start_line_one_indexed'' = s \<and>
   int_param (read_params s e) ''end_line_one_indexed_inclusive'' = e"
  by (simp add: read_params_def string_param_def work_dir_param_def target_path_def bool_param_def
        int_param_def IsAbs_def HasPrefix_def Join_def Clean_def)

text \<open>
  C5 (as amended). With \<open>should_read_entire_file\<close> false on a readable file, the request
  is rejected by the range-length rule exactly when the range, after the start has been
  raised to at least 1 and the end lowered to at most the number of lines, is a range
  of more than 250 lines; the error carries that length. Lines 5 to 254 are 250 lines and
  pass the rule; lines 5 to 255 of a file of 300 lines do not.
\<close>

theorem read_file_range_limit:
  assumes "string_param ps ''target_file'' = Some t" and "t \<noteq> []"
    and "readable_lines w (target_path (work_dir_param ps) t) ls"
    and "\<not> bool_param ps ''should_read_entire_file''"
  shows "(fst (readFileFunction ps w) = Inl (TooManyLines n)) =
           (max 1 (int_param ps ''start_line_one_indexed'')
              \<le> int_param ps ''end_line_one_indexed_inclusive'' \<and>
            max 1 (int_param ps ''start_line_one_indexed'') \<le> int (length ls) \<and>
            n = min (int_param ps ''end_line_one_indexed_inclusive'') (int (length ls))
                  - max 1 (int_param ps ''start_line_one_indexed'') + 1 \<and>
            250 < n)"
  unfolding readFileFunction_readable [OF assms(1-3)]
  using assms(4)
  by (auto simp: read_lines_def Let_def max_def min_def)

theorem read_file_range_limit_witness:
  "fst (readFileFunction (read_params 5 255) big_world) = Inl (TooManyLines 251)"
  using read_file_range_limit
          [of "read_params 5 255" "''big.txt''" big_world "replicate 300 ''x''" 251]
        big_world_readable read_params_target [of 5 255]
  by simp

text \<open>
  C5, as the specification states it: the request it names, lines 5 to 254, on a file of
  300 lines, is not rejected, and the 250 lines are returned.
\<close>

theorem read_file_5_254_counterexample:
  "fst (readFileFunction (read_params 5 254) big_world) =
     Inr (ReadFileValue
       \<lparr>rf_Content = join_with newline (replicate 250 ''x''), rf_TotalLines = 300,
        rf_StartLine = 5, rf_EndLine = 254, rf_FilePath = ''/work/big.txt'',
        rf_LinesNotShown = ''Lines 1-4 not shown; Lines 255-300 not shown'',
        rf_ReadEntireFile = False\<rparr>)"
proof -
  have "fmt_d 4 = ''4''" "fmt_d 255 = ''255''" "fmt_d 300 = ''300''"
    by (simp_all add: fmt_d_def digit_char_def)
  then show ?thesis
    using readFileFunction_readable [of "read_params 5 254" "''big.txt''" big_world "replicate 300 ''x''"]
        big_world_readable read_params_target [of 5 254]
    by (simp add: read_lines_def lines_not_shown_def)
qed

text \<open>
  C6. With \<open>should_read_entire_file\<close> false on a readable file, the request fails with
  the error that suggests a wider range exactly when the range (start raised to at least
  1, start not after end) covers fewer than 200 lines, the file has at least 200 lines and
  the end lies before the last line; the suggested range runs from the start to the
  smaller of start + 199 and the number of lines. Lines 5 to 10 of a file of 300 lines fail
  with the suggestion 5 to 204.
\<close>

theorem read_file_min_lines:
  assumes "string_param ps ''target_file'' = Some t" and "t \<noteq> []"
    and "readable_lines w (target_path (work_dir_param ps) t) ls"
    and "\<not> bool_param ps ''should_read_entire_file''"
  shows "(fst (readFileFunction ps w) = Inl (MinLinesRequired a b)) =
           (max 1 (int_param ps ''start_line_one_indexed'')
              \<le> int_param ps ''end_line_one_indexed_inclusive'' \<and>
            int_param ps ''end_line_one_indexed_inclusive''
              - max 1 (int_param ps ''start_line_one_indexed'') + 1 < 200 \<and>
            200 \<le> int (length ls) \<and>
            int_param ps ''end_line_one_indexed_inclusive'' < int (length ls) \<and>
            a = max 1 (int_param ps ''start_line_one_indexed'') \<and>
            b = min (max 1 (int_param ps ''start_line_one_indexed'') + 199) (int (length ls)))"
  unfolding readFileFunction_readable [OF assms(1-3)]
  using assms(4)
  by (auto simp: read_lines_def Let_def max_def min_def)

theorem read_file_min_lines_witness:
  "fst (readFileFunction (read_params 5 10) big_world) = Inl (MinLinesRequired 5 204)"
  using read_file_min_lines
          [of "read_params 5 10" "''big.txt''" big_world "replicate 300 ''x''" 5 204]
        big_world_readable read_params_target [of 5 10]
  by simp

section \<open>write_file on an existing file\<close>

lemma writeFileFunction_exists:
  assumes "string_param ps ''target_file'' = Some t" and "t \<noteq> []"
    and "string_param ps ''content'' = Some content"
    and "\<not> bool_param ps ''overwrite''"
    and "os_Stat w (target_path (work_dir_param ps) t) = StatOk n"
  shows "writeFileFunction ps w =
           (Inr (WriteFileValue
              \<lparr>wf_TargetFile = target_path (work_dir_param ps) t, wf_Written = False,
               wf_Created = False, wf_BytesWritten = 0,
               wf_Message = ''File exists and overwrite is not enabled'',
               wf_FileExists = True\<rparr>), w)"
  using assms by (simp add: writeFileFunction_def Let_def)

text \<open>
  C7. write_file, called through the manager on a path that \<open>os.Stat\<close> finds, with the
  overwrite flag absent or false: the manager returns \<open>success = true\<close> with a payload
  that has \<open>written = false\<close> and \<open>file_exists = true\<close>, and the state is the one
  before the call, whatever the security check would say of the path. Nothing is created
  or written.
\<close>

theorem write_file_keeps_existing:
  assumes "tools tm name = Some tool" and "Function tool = writeFileFunction"
    and "ps = (case ps0 of None \<Rightarrow> Map.empty | Some m \<Rightarrow> m)(''__work_dir__'' \<mapsto> VString (workDir tm))"
    and "string_param ps ''target_file'' = Some t" and "t \<noteq> []"
    and "string_param ps ''content'' = Some content"
    and "\<not> bool_param ps ''overwrite''"
    and "os_Stat w (target_path (workDir tm) t) = StatOk n"
  shows "ExecuteTool tm name ps0 w =
           ((\<lparr>tr_Name = name,
              tr_Result = Some (WriteFileValue
                \<lparr>wf_TargetFile = target_path (workDir tm) t, wf_Written = False,
                 wf_Created = False, wf_BytesWritten = 0,
                 wf_Message = ''File exists and overwrite is not enabled'',
                 wf_FileExists = True\<rparr>),
              tr_Error = [], tr_Success = True\<rparr>, None), tm, w)"
proof -
  have wd: "work_dir_param ps = workDir tm"
    by (simp add: assms(3) work_dir_param_def string_param_def)
  have "writeFileFunction ps w =
           (Inr (WriteFileValue
              \<lparr>wf_TargetFile = target_path (workDir tm) t, wf_Written = False,
               wf_Created = False, wf_BytesWritten = 0,
               wf_Message = ''File exists and overwrite is not enabled'',
               wf_FileExists = True\<rparr>), w)"
    using writeFileFunction_exists [OF assms(4-7), of w n] assms(8) wd by simp
  then show ?thesis
    using assms(1-3) by (simp add: ExecuteTool_def Let_def)
qed

theorem write_file_keeps_existing_witness:
  "ExecuteTool write_manager ''write_file'' (Some write_params) notes_world =
     ((\<lparr>tr_Name = ''write_file'',
        tr_Result = Some (WriteFileValue
          \<lparr>wf_TargetFile = ''/work/notes.txt'', wf_Written = False,
           wf_Created = False, wf_BytesWritten = 0,
           wf_Message = ''File exists and overwrite is not enabled'',
           wf_FileExists = True\<rparr>),
        tr_Error = [], tr_Success = True\<rparr>, None), write_manager, notes_world) \<and>
   nodes notes_world ''/work/notes.txt'' = Some (File ''old text'')"
proof -
  let ?ps = "write_params(''__work_dir__'' \<mapsto> VString ''/work'')"
  have wd: "workDir write_manager = ''/work''"
    by (simp add: write_manager_def RegisterTool_def NewDefaultToolManager_def notes_world_def
          example_world_def)
  have tool: "tools write_manager ''write_file'' = Some (tool_named ''write_file'' writeFileFunction)"
    by (simp add: write_manager_def RegisterTool_def NewDefaultToolManager_def)
  have f: "Function (tool_named ''write_file'' writeFileFunction) = writeFileFunction"
    by (simp add: tool_named_def)
  have tp: "target_path ''/work'' ''notes.txt'' = ''/work/notes.txt''"
    by (simp add: target_path_def IsAbs_def HasPrefix_def Join_def Clean_def)
  have st: "os_Stat notes_world ''/work/notes.txt'' = StatOk (File ''old text'')"
    by (simp add: os_Stat_def notes_world_def example_world_def resolve_def Clean_def IsAbs_def
          HasPrefix_def)
  have p1: "string_param ?ps ''target_file'' = Some ''notes.txt''"
    and p2: "string_param ?ps ''content'' = Some ''new text''"
    and p3: "\<not> bool_param ?ps ''overwrite''"
    by (simp_all add: write_params_def string_param_def bool_param_def)
  show ?thesis
    using write_file_keeps_existing
            [of write_manager "''write_file''" "tool_named ''write_file'' writeFileFunction" ?ps
                "Some write_params" "''notes.txt''" "''new text''" notes_world "File ''old text''"]
          tool f p1 p2 p3 st tp wd
    by (simp add: notes_world_def)
qed

section \<open>search_replace: the first occurrence on the first matching line\<close>

lemma HasPrefix_append: "HasPrefix s p = (\<exists>r. s = p @ r)"
  unfolding HasPrefix_def
  by (metis append_eq_conv_conj append_take_drop_id)

lemma Index_Some_first:
  "Index s sub = Some i \<Longrightarrow>
     HasPrefix (drop i s) sub \<and> i \<le> length s \<and> (\<forall>j<i. \<not> HasPrefix (drop j s) sub)"
proof (induction s arbitrary: i)
  case Nil
  then show ?case by (simp add: HasPrefix_def split: if_splits)
next
  case (Cons c cs)
  show ?case
  proof (cases "HasPrefix (c # cs) sub")
    case True
    with Cons.prems show ?thesis by simp
  next
    case False
    with Cons.prems obtain i' where i': "Index cs sub = Some i'" "i = Suc i'"
      by auto
    from Cons.IH [OF i'(1)] False i'(2) show ?thesis
      by (auto simp: less_Suc_eq_0_disj)
  qed
qed



lemma Replace1_first:
  assumes "Contains s old"
  shows "\<exists>pre post. s = pre @ old @ post \<and> Replace1 s old new = pre @ new @ post \<and>
           (\<forall>j<length pre. \<not> HasPrefix (drop j s) old)"
proof -
  from assms obtain i where i: "Index s old = Some i"
    by (auto simp: Contains_def)
  from Index_Some_first [OF i] obtain r where r: "drop i s = old @ r" and le: "i \<le> length s"
    and first: "\<forall>j<i. \<not> HasPrefix (drop j s) old"
    by (auto simp: HasPrefix_append)
  have s: "s = take i s @ old @ r"
    using r by (metis append_take_drop_id)
  have "drop (i + length old) s = r"
    using r by (metis append_eq_conv_conj drop_drop add.commute)
  then have "Replace1 s old new = take i s @ new @ r"
    by (simp add: Replace1_def i)
  moreover have "length (take i s) = i"
    using le by simp
  ultimately show ?thesis
    using s first by metis
qed


















section \<open>delete_file: the extension check is case-sensitive\<close>

lemma find_eq:
  "find (\<lambda>y. x = y) xs = (if x \<in> set xs then Some x else None)"
  by (induction xs) auto

lemma ext_scan_takeWhile:
  "ext_scan (takeWhile (\<lambda>c. c \<noteq> CHR ''/'') xs) acc = ext_scan xs acc"
  by (induction xs arbitrary: acc) auto

lemma Base_rev_Cons:
  "c \<noteq> CHR ''/'' \<Longrightarrow>
     Base (rev (c # cs)) = rev (takeWhile (\<lambda>c. c \<noteq> CHR ''/'') (c # cs))"
  unfolding Base_def Let_def by simp

lemma Ext_Base:
  assumes "Ext p \<noteq> []"
  shows "Ext (Base p) = Ext p"
proof (cases "rev p")
  case Nil
  with assms show ?thesis by (simp add: Ext_def)
next
  case (Cons c cs)
  show ?thesis
  proof (cases "c = CHR ''/''")
    case True
    with assms Cons show ?thesis by (simp add: Ext_def)
  next
    case False
    have p: "p = rev (c # cs)"
      using Cons by (metis rev_rev_ident)
    have "Base p = rev (takeWhile (\<lambda>c. c \<noteq> CHR ''/'') (c # cs))"
      unfolding p using False by (rule Base_rev_Cons)
    then have "Ext (Base p) = ext_scan (c # cs) []"
      unfolding Ext_def by (simp only: rev_rev_ident ext_scan_takeWhile)
    then show ?thesis
      by (simp add: Ext_def Cons)
  qed
qed

lemma case_variant_not_system_file:
  assumes "Ext p \<notin> set dangerousExtensions" and "ToLower (Ext p) \<in> set dangerousExtensions"
  shows "Base p \<notin> set deleteSystemFiles"
proof
  assume b: "Base p \<in> set deleteSystemFiles"
  have "ToLower [] \<notin> set dangerousExtensions"
    by (simp add: dangerousExtensions_def ToLower_def)
  with assms(2) have "Ext p \<noteq> []"
    by metis
  then have e: "Ext (Base p) = Ext p"
    by (rule Ext_Base)
  from b have "Ext (Base p) \<in> {''.ini'', [], ''.sys'', ''.DS_Store'', ''.db''}"
    by (auto simp: deleteSystemFiles_def Ext_def)
  with e have "Ext p \<in> {''.ini'', [], ''.sys'', ''.DS_Store'', ''.db''}"
    by simp
  then consider "Ext p = ''.ini''" | "Ext p = []" | "Ext p = ''.sys''" | "Ext p = ''.DS_Store''"
    | "Ext p = ''.db''"
    by auto
  then show False
  proof cases
    case 1
    with assms(2) show False by (simp add: dangerousExtensions_def ToLower_def lower_char_def)
  next
    case 2
    with assms(2) show False by (simp add: dangerousExtensions_def ToLower_def)
  next
    case 3
    with assms(1) show False by (simp add: dangerousExtensions_def)
  next
    case 4
    with assms(2) show False by (simp add: dangerousExtensions_def ToLower_def lower_char_def)
  next
    case 5
    with assms(2) show False by (simp add: dangerousExtensions_def ToLower_def lower_char_def)
  qed
qed

text \<open>
  C10. delete_file on an existing regular file whose absolute path is under none of
  the blocked directories. The extension is compared as it is written: when it is on the
  list the call is rejected with the security-check message for the file type and nothing
  changes; when it is not on the list but its lower-case form is (an upper-case variant
  such as \<open>.EXE\<close>) the checks pass and, the removal not failing, the file is removed.
  The check of write_file lower-cases the extension first and rejects such a path.
\<close>

theorem delete_file_extension_case:
  assumes "string_param ps ''target_file'' = Some t" and "t \<noteq> []"
    and "fp = target_path (work_dir_param ps) t"
    and "os_Stat w fp = StatOk (File content)"
    and "Abs w fp = Inr ap"
    and "find (\<lambda>d. HasPrefix ap d) deleteDangerousPaths = None"
  shows "(Ext fp \<in> set dangerousExtensions \<longrightarrow>
            deleteFileFunction ps w =
              (Inr (DeleteFileValue
                 \<lparr>df_TargetFile = fp, df_Deleted = False,
                  df_Message = ''Security check failed: '' @
                    ''cannot delete potentially dangerous file type: '' @ Ext fp,
                  df_FileInfo = ''File with '' @ fmt_d (int (length content)) @ '' bytes''\<rparr>),
               w)) \<and>
         (Ext fp \<notin> set dangerousExtensions \<and> ToLower (Ext fp) \<in> set dangerousExtensions \<and>
          faults w OpRemove fp = None \<longrightarrow>
            deleteFileFunction ps w =
              (Inr (DeleteFileValue
                 \<lparr>df_TargetFile = fp, df_Deleted = True,
                  df_Message = ''File successfully deleted'',
                  df_FileInfo = ''File with '' @ fmt_d (int (length content)) @ '' bytes''\<rparr>),
               w\<lparr>nodes := (nodes w)(resolve w fp := None)\<rparr>)) \<and>
         (ToLower (Ext fp) \<in> set dangerousExtensions \<and>
          find (\<lambda>d. HasPrefix ap d) writeDangerousPaths = None \<longrightarrow>
            performWriteSecurityChecks w fp = Some (CreateDangerousType (ToLower (Ext fp))))"
proof -
  from assms(4) have node: "nodes w (resolve w fp) = Some (File content)"
    by (auto simp: os_Stat_def split: option.splits)
  have size: "Size w fp (File content) = length content" and nd: "\<not> IsDir (File content)"
    by (simp_all add: Size_def IsDir_def)
  have a: "deleteFileFunction ps w =
              (Inr (DeleteFileValue
                 \<lparr>df_TargetFile = fp, df_Deleted = False,
                  df_Message = ''Security check failed: '' @
                    ''cannot delete potentially dangerous file type: '' @ Ext fp,
                  df_FileInfo = ''File with '' @ fmt_d (int (length content)) @ '' bytes''\<rparr>),
               w)"
    if "Ext fp \<in> set dangerousExtensions"
  proof -
    have "performSecurityChecks w fp = Some (DeleteDangerousType (Ext fp))"
      using that by (simp add: performSecurityChecks_def assms(5,6) find_eq Let_def)
    then show ?thesis
      using assms(1,2,4) size nd
      by (simp add: deleteFileFunction_def Let_def assms(3) [symmetric])
  qed
  have b: "deleteFileFunction ps w =
              (Inr (DeleteFileValue
                 \<lparr>df_TargetFile = fp, df_Deleted = True,
                  df_Message = ''File successfully deleted'',
                  df_FileInfo = ''File with '' @ fmt_d (int (length content)) @ '' bytes''\<rparr>),
               w\<lparr>nodes := (nodes w)(resolve w fp := None)\<rparr>)"
    if "Ext fp \<notin> set dangerousExtensions" "ToLower (Ext fp) \<in> set dangerousExtensions"
       "faults w OpRemove fp = None"
  proof -
    have "Base fp \<notin> set deleteSystemFiles"
      using that(1,2) by (rule case_variant_not_system_file)
    then have "performSecurityChecks w fp = None"
      using that(1) by (simp add: performSecurityChecks_def assms(5,6) find_eq Let_def)
    moreover have "os_Remove w fp = Inr (w\<lparr>nodes := (nodes w)(resolve w fp := None)\<rparr>)"
      by (simp add: os_Remove_def that(3) node)
    ultimately show ?thesis
      using assms(1,2,4) size nd
      by (simp add: deleteFileFunction_def Let_def assms(3) [symmetric])
  qed
  have c: "performWriteSecurityChecks w fp = Some (CreateDangerousType (ToLower (Ext fp)))"
    if "ToLower (Ext fp) \<in> set dangerousExtensions"
       "find (\<lambda>d. HasPrefix ap d) writeDangerousPaths = None"
    using that by (simp add: performWriteSecurityChecks_def assms(5) find_eq Let_def)
  from a b c show ?thesis by blast
qed

lemma delete_params_read:
  "string_param (delete_params t) ''target_file'' = Some t \<and>
   work_dir_param (delete_params t) = ''/work''"
  by (simp add: delete_params_def string_param_def work_dir_param_def)

lemma exe_paths:
  "target_path ''/work'' ''tool.EXE'' = ''/work/tool.EXE'' \<and>
   target_path ''/work'' ''tool.exe'' = ''/work/tool.exe'' \<and>
   resolve exe_world ''/work/tool.EXE'' = ''/work/tool.EXE'' \<and>
   resolve exe_world ''/work/tool.exe'' = ''/work/tool.exe'' \<and>
   Abs exe_world ''/work/tool.EXE'' = Inr ''/work/tool.EXE'' \<and>
   Abs exe_world ''/work/tool.exe'' = Inr ''/work/tool.exe'' \<and>
   Ext ''/work/tool.EXE'' = ''.EXE'' \<and> Ext ''/work/tool.exe'' = ''.exe''"
  by (simp add: target_path_def resolve_def Abs_def IsAbs_def HasPrefix_def Join_def Clean_def
        Ext_def)

theorem delete_file_extension_case_witness:
  "deleteFileFunction (delete_params ''tool.EXE'') exe_world =
     (Inr (DeleteFileValue
        \<lparr>df_TargetFile = ''/work/tool.EXE'', df_Deleted = True,
         df_Message = ''File successfully deleted'', df_FileInfo = ''File with 2 bytes''\<rparr>),
      exe_world\<lparr>nodes := (nodes exe_world)(''/work/tool.EXE'' := None)\<rparr>) \<and>
   deleteFileFunction (delete_params ''tool.exe'') exe_world =
     (Inr (DeleteFileValue
        \<lparr>df_TargetFile = ''/work/tool.exe'', df_Deleted = False,
         df_Message = ''Security check failed: cannot delete potentially dangerous file type: .exe'',
         df_FileInfo = ''File with 2 bytes''\<rparr>),
      exe_world) \<and>
   performWriteSecurityChecks exe_world ''/work/tool.EXE'' = Some (CreateDangerousType ''.exe'')"
proof -
  have d: "fmt_d 2 = ''2''"
    by (simp add: fmt_d_def digit_char_def)
  have low: "ToLower ''.EXE'' = ''.exe''"
    by (simp add: ToLower_def lower_char_def)
  have st: "os_Stat exe_world ''/work/tool.EXE'' = StatOk (File ''MZ'')"
       "os_Stat exe_world ''/work/tool.exe'' = StatOk (File ''MZ'')"
  proof -
    have "nodes exe_world ''/work/tool.EXE'' = Some (File ''MZ'')"
      and "nodes exe_world ''/work/tool.exe'' = Some (File ''MZ'')"
      and "faults exe_world OpStat p = None" for p
      by (simp_all add: exe_world_def example_world_def)
    then show "os_Stat exe_world ''/work/tool.EXE'' = StatOk (File ''MZ'')"
      and "os_Stat exe_world ''/work/tool.exe'' = StatOk (File ''MZ'')"
      by (simp_all add: os_Stat_def exe_paths)
  qed
  have pre: "find (\<lambda>d. HasPrefix ''/work/tool.EXE'' d) deleteDangerousPaths = None"
       "find (\<lambda>d. HasPrefix ''/work/tool.exe'' d) deleteDangerousPaths = None"
       "find (\<lambda>d. HasPrefix ''/work/tool.EXE'' d) writeDangerousPaths = None"
    by (simp_all add: deleteDangerousPaths_def writeDangerousPaths_def HasPrefix_def backslash_def)
  have mem: "''.EXE'' \<notin> set dangerousExtensions" "''.exe'' \<in> set dangerousExtensions"
    by (simp_all add: dangerousExtensions_def)
  have nf: "faults exe_world OpRemove ''/work/tool.EXE'' = None"
    by (simp add: exe_world_def example_world_def)
  have upper:
    "deleteFileFunction (delete_params ''tool.EXE'') exe_world =
       (Inr (DeleteFileValue
          \<lparr>df_TargetFile = ''/work/tool.EXE'', df_Deleted = True,
           df_Message = ''File successfully deleted'', df_FileInfo = ''File with 2 bytes''\<rparr>),
        exe_world\<lparr>nodes := (nodes exe_world)(''/work/tool.EXE'' := None)\<rparr>) \<and>
     performWriteSecurityChecks exe_world ''/work/tool.EXE'' = Some (CreateDangerousType ''.exe'')"
    using delete_file_extension_case
            [of "delete_params ''tool.EXE''" "''tool.EXE''" "''/work/tool.EXE''" exe_world
                "''MZ''" "''/work/tool.EXE''"]
          delete_params_read [of "''tool.EXE''"] exe_paths st pre mem nf d low
    by simp
  have lower:
    "deleteFileFunction (delete_params ''tool.exe'') exe_world =
       (Inr (DeleteFileValue
          \<lparr>df_TargetFile = ''/work/tool.exe'', df_Deleted = False,
           df_Message = ''Security check failed: cannot delete potentially dangerous file type: .exe'',
           df_FileInfo = ''File with 2 bytes''\<rparr>),
        exe_world)"
    using delete_file_extension_case
            [of "delete_params ''tool.exe''" "''tool.exe''" "''/work/tool.exe''" exe_world
                "''MZ''" "''/work/tool.exe''"]
          delete_params_read [of "''tool.exe''"] exe_paths st pre mem d
    by simp
  from upper lower show ?thesis by blast
qed

section \<open>grep_search: the cap of the fallback scanner\<close>

lemma search_loop_cap:
  "0 \<le> matchCount \<Longrightarrow> matchCount \<le> 50 \<Longrightarrow>
     length (fst (search_loop regex query cs filePath ls scanErr lineNumber matchCount matches))
       \<le> length matches + nat (50 - matchCount)"
proof (induction ls arbitrary: lineNumber matchCount matches)
  case Nil
  then show ?case by simp
next
  case (Cons l ls)
  show ?case
  proof (cases "matchCount < 50")
    case False
    then show ?thesis by simp
  next
    case True
    show ?thesis
    proof (cases "regex l")
      case True
      from \<open>matchCount < 50\<close> Cons.prems
        Cons.IH [of "matchCount + 1" "lineNumber + 1"
                    "matches @ [\<lparr>gm_File = filePath, gm_Line = lineNumber + 1, gm_Column = 0,
                                 gm_Content = l, gm_Match = extractMatch l query cs\<rparr>]"]
      show ?thesis using True by simp
    next
      case False
      from \<open>matchCount < 50\<close> Cons.prems Cons.IH [of matchCount "lineNumber + 1" matches]
      show ?thesis using False by simp
    qed
  qed
qed

lemma searchInFile_cap:
  "length (fst (searchInFile w filePath regex cs query matches)) \<le> length matches + 50"
  using search_loop_cap [of 0 regex query cs filePath _ _ 0 matches]
  by (auto simp: searchInFile_def split: sum.splits prod.splits)

lemma search_loop_all_match:
  "\<forall>l \<in> set ls. regex l \<Longrightarrow> 0 \<le> matchCount \<Longrightarrow> matchCount + int (length ls) \<le> 50 \<Longrightarrow>
     \<exists>ms. search_loop regex query cs filePath ls scanErr lineNumber matchCount matches
            = (ms, scanErr) \<and>
          length ms = length matches + length ls"
proof (induction ls arbitrary: lineNumber matchCount matches)
  case Nil
  then show ?case by simp
next
  case (Cons l ls)
  from Cons.prems have lt: "matchCount < 50" and re: "regex l" by auto
  from Cons.prems
    Cons.IH [of "matchCount + 1" "lineNumber + 1"
                "matches @ [\<lparr>gm_File = filePath, gm_Line = lineNumber + 1, gm_Column = 0,
                             gm_Content = l, gm_Match = extractMatch l query cs\<rparr>]"]
  show ?case using lt re by auto
qed

lemma needle_file_search:
  assumes "nodes needle_world (resolve needle_world p) = Some (File (text_of_lines (replicate 50 ''needle'')))"
  shows "\<exists>ms. searchInFile needle_world p (\<lambda>line. Contains line ''needle'') True ''needle'' matches
               = (ms, None) \<and> length ms = length matches + 50"
proof -
  have f: "faults needle_world operation q = None" for operation q
    by (simp add: needle_world_def example_world_def)
  have sc: "scan_tokens (raw_lines (text_of_lines (replicate 50 ''needle'')))
              = (replicate 50 ''needle'', None)"
    by (simp add: raw_lines_text_of_lines scan_tokens_plain MaxScanTokenSize_def dropCR_def)
  have c: "Contains ''needle'' ''needle''"
    by (simp add: Contains_def HasPrefix_def)
  have "\<exists>ms. search_loop (\<lambda>line. Contains line ''needle'') ''needle'' True p
               (replicate 50 ''needle'') None 0 0 matches = (ms, None) \<and>
             length ms = length matches + length (replicate 50 ''needle'')"
    by (rule search_loop_all_match) (simp_all add: c)
  then show ?thesis
    by (simp add: searchInFile_def os_Open_def f assms scan_node_def sc)
qed

text \<open>
  C9. The counter that caps the matches is local to \<open>searchInFile\<close>, so the cap of
  50 holds for each file (\<open>searchInFile_cap\<close>) and not for the search: on two files of 50
  matching lines each the fallback reports 100 matches.
\<close>

theorem fallback_two_files_100_matches:
  "map_sum id gs_TotalMatches
     (fallbackGrepSearch substring_libs needle_world ''needle'' True [] [] ''/work'') = Inr 100"
proof -
  have r: "resolve needle_world ''/work/a.txt'' = ''/work/a.txt''"
          "resolve needle_world ''/work/b.txt'' = ''/work/b.txt''"
    by (simp_all add: resolve_def Clean_def IsAbs_def HasPrefix_def)
  have n: "nodes needle_world ''/work/a.txt'' = Some (File (text_of_lines (replicate 50 ''needle'')))"
          "nodes needle_world ''/work/b.txt'' = Some (File (text_of_lines (replicate 50 ''needle'')))"
    by (simp_all add: needle_world_def example_world_def)
  from needle_file_search [of "''/work/a.txt''" "[]"] r n obtain ms1 where
    a: "searchInFile needle_world ''/work/a.txt'' (\<lambda>line. Contains line ''needle'') True ''needle'' []
          = (ms1, None)" and la: "length ms1 = 50"
    by auto
  from needle_file_search [of "''/work/b.txt''" ms1] r n la obtain ms2 where
    b: "searchInFile needle_world ''/work/b.txt'' (\<lambda>line. Contains line ''needle'') True ''needle'' ms1
          = (ms2, None)" and lb: "length ms2 = 100"
    by auto
  have w: "walk needle_world ''/work'' = [WalkDir ''/work'', WalkFile ''/work/a.txt'', WalkFile ''/work/b.txt'']"
    by (simp add: needle_world_def)
  have "walk_loop substring_libs needle_world (\<lambda>line. Contains line ''needle'') True ''needle'' [] []
          (walk needle_world ''/work'') [] = (ms2, None)"
    by (simp add: w a b)
  then show ?thesis
    by (simp add: fallbackGrepSearch_def substring_libs_def lb)
qed

section \<open>The client: assembling tool calls from fragments\<close>

lemma merge_fragment_nil: "tc_Index f = None \<Longrightarrow> merge_fragment tcs f = Inr tcs"
  by (simp add: merge_fragment_def)

lemma merge_fragment_at:
  assumes "tc_Index f = Some i0" and "0 \<le> i0"
  shows "merge_fragment tcs f =
           Inr ((grow i0 tcs)[nat i0 := merged f (grow i0 tcs ! nat i0)])"
proof -
  have len: "nat i0 < length (grow i0 tcs)"
    using assms(2) by (simp add: grow_def)
  show ?thesis
    using assms len
    by (simp add: merge_fragment_def and_then_def set_at_def merged_def)
qed


lemma slot_grow: "slot (grow i0 tcs) i = slot tcs i"
  by (auto simp: slot_def grow_def nth_append)

lemma slot_update:
  "slot (xs[k := v]) i = (if i = k \<and> k < length xs then v else slot xs i)"
  by (auto simp: slot_def)

lemma merge_fragment_slot:
  assumes "tc_Index f = Some i0" and "0 \<le> i0"
  shows "\<exists>t1. merge_fragment tcs f = Inr t1 \<and>
           length t1 = max (length tcs) (slots_needed f) \<and>
           (\<forall>i. slot t1 i = (if i = nat i0 then merged f (slot tcs i) else slot tcs i))"
proof -
  let ?g = "grow i0 tcs"
  let ?t1 = "?g[nat i0 := merged f (?g ! nat i0)]"
  have len: "length ?g = max (length tcs) (nat (i0 + 1))"
    by (simp add: grow_def)
  have in_range: "nat i0 < length ?g"
    using assms(2) by (simp add: grow_def)
  have "?g ! nat i0 = slot ?g (nat i0)"
    using in_range by (simp add: slot_def)
  then have g: "?g ! nat i0 = slot tcs (nat i0)"
    by (simp only: slot_grow)
  have "slot ?t1 i = (if i = nat i0 then merged f (slot tcs i) else slot tcs i)" for i
    using in_range by (simp add: slot_update slot_grow g)
  then show ?thesis
    using merge_fragment_at [OF assms, of tcs] len assms(1)
    by (simp add: slots_needed_def)
qed

lemma assemble_Cons: "assemble t (f # fs) = assemble (merged f t) fs"
  by (simp add: assemble_def)

lemma merge_fragments_slots:
  assumes "\<forall>f \<in> set fs. \<forall>i. tc_Index f = Some i \<longrightarrow> 0 \<le> i"
  shows "\<exists>r. merge_fragments tcs fs = Inr r \<and>
           length r = max (length tcs) (slot_count fs) \<and>
           (\<forall>i. slot r i = assemble (slot tcs i) (at_index i fs))"
  using assms
proof (induction fs arbitrary: tcs)
  case Nil
  then show ?case
    by (simp add: slot_count_def at_index_def assemble_def)
next
  case (Cons f fs)
  show ?case
  proof (cases "tc_Index f")
    case None
    from Cons.prems have "\<forall>f \<in> set fs. \<forall>i. tc_Index f = Some i \<longrightarrow> 0 \<le> i"
      by simp
    from Cons.IH [OF this, of tcs] None show ?thesis
      by (simp add: merge_fragment_nil and_then_def slot_count_def slots_needed_def at_index_def)
  next
    case (Some i0)
    with Cons.prems have nn: "0 \<le> i0" by simp
    from merge_fragment_slot [OF Some nn, of tcs] obtain t1 where
      t1: "merge_fragment tcs f = Inr t1"
          "length t1 = max (length tcs) (slots_needed f)"
          "\<forall>i. slot t1 i = (if i = nat i0 then merged f (slot tcs i) else slot tcs i)"
      by blast
    from Cons.prems have "\<forall>f \<in> set fs. \<forall>i. tc_Index f = Some i \<longrightarrow> 0 \<le> i"
      by simp
    from Cons.IH [OF this, of t1] obtain r where
      r: "merge_fragments t1 fs = Inr r"
         "length r = max (length t1) (slot_count fs)"
         "\<forall>i. slot r i = assemble (slot t1 i) (at_index i fs)"
      by blast
    have a: "merge_fragments tcs (f # fs) = Inr r"
      by (simp add: t1(1) r(1) and_then_def)
    have b: "length r = max (length tcs) (slot_count (f # fs))"
      by (simp add: r(2) t1(2) slot_count_def max.assoc)
    have c: "slot r i = assemble (slot tcs i) (at_index i (f # fs))" for i
    proof (cases "i = nat i0")
      case True
      then have "int i = i0" using nn by simp
      then show ?thesis
        using r(3) t1(3) True Some by (simp add: at_index_def assemble_Cons)
    next
      case False
      then have "int i \<noteq> i0" by auto
      then show ?thesis
        using r(3) t1(3) False Some by (simp add: at_index_def)
    qed
    from a b c show ?thesis by blast
  qed
qed

lemma last_nonempty_Cons:
  "last_nonempty d (x # xs) = last_nonempty (if x \<noteq> [] then x else d) xs"
  by (simp add: last_nonempty_def split: list.split)

lemma assemble_fields:
  "tc_Arguments (assemble t fs) = tc_Arguments t @ concat (map tc_Arguments fs) \<and>
   tc_ID (assemble t fs) = last_nonempty (tc_ID t) (map tc_ID fs) \<and>
   tc_Name (assemble t fs) = last_nonempty (tc_Name t) (map tc_Name fs) \<and>
   tc_Index (assemble t fs) = tc_Index t"
proof (induction fs arbitrary: t)
  case Nil
  show ?case by (simp add: assemble_def last_nonempty_def)
next
  case (Cons f fs)
  show ?case
    using Cons.IH [of "merged f t"]
    by (simp add: assemble_Cons last_nonempty_Cons) (simp add: merged_def)
qed

lemma merge_fragments_append:
  "merge_fragments tcs (xs @ ys) =
     and_then (merge_fragments tcs xs) (\<lambda>t. merge_fragments t ys)"
  by (induction xs arbitrary: tcs) (auto simp: and_then_def split: sum.splits)

lemma drain_merge:
  "merge_fragments tcs (fragments_of rs) = Inr r \<Longrightarrow>
     \<exists>content out'. drain rs cb tcs out = ((content, r, out'), None)"
proof (induction rs arbitrary: cb tcs out)
  case Nil
  then show ?case by (simp add: fragments_of_def)
next
  case (Cons x rs)
  show ?case
  proof (cases "Choices x")
    case Nil
    with Cons.prems have "merge_fragments tcs (fragments_of rs) = Inr r"
      by (simp add: fragments_of_def)
    from Cons.IH [OF this] Nil show ?thesis by simp
  next
    case (Cons delta others)
    with Cons.prems have
      "and_then (merge_fragments tcs (d_ToolCalls delta))
         (\<lambda>t. merge_fragments t (fragments_of rs)) = Inr r"
      by (simp add: fragments_of_def merge_fragments_append)
    then obtain t1 where t1: "merge_fragments tcs (d_ToolCalls delta) = Inr t1"
      and rest: "merge_fragments t1 (fragments_of rs) = Inr r"
      by (auto simp: and_then_def split: sum.splits)
    from Cons.IH [OF rest] Cons t1 show ?thesis
      by (simp add: Let_def)
  qed
qed


text \<open>
  C2 (as amended). When every index of a fragment is a position (not negative),
  draining the stream does not fail and yields a list of calls as long as the largest
  index plus one: one call for every position up to the largest index received. The
  identifier and the name of the call at a position are the last non-empty ones among
  the fragments with that index, its arguments are the concatenation of their argument
  texts in arrival order, and a position no fragment names holds the empty call.
  Fragments without an index are skipped. Fragments at indices 0 and 1 with split
  arguments give two calls with the arguments joined.
\<close>

theorem drain_assembles_by_index:
  assumes "\<forall>f \<in> set (fragments_of rs). \<forall>i. tc_Index f = Some i \<longrightarrow> 0 \<le> i"
  shows "\<exists>content calls out'.
           drain rs [] [] out = ((content, calls, out'), None) \<and>
           length calls = slot_count (fragments_of rs) \<and>
           (\<forall>i < length calls.
              tc_ID (calls ! i) = last_nonempty [] (map tc_ID (at_index i (fragments_of rs))) \<and>
              tc_Name (calls ! i) = last_nonempty [] (map tc_Name (at_index i (fragments_of rs))) \<and>
              tc_Arguments (calls ! i) = concat (map tc_Arguments (at_index i (fragments_of rs))) \<and>
              (at_index i (fragments_of rs) = [] \<longrightarrow> calls ! i = emptyToolCall))"
proof -
  from merge_fragments_slots [OF assms, of "[]"] obtain r where
    r: "merge_fragments [] (fragments_of rs) = Inr r"
       "length r = slot_count (fragments_of rs)"
       "\<forall>i. slot r i = assemble (slot [] i) (at_index i (fragments_of rs))"
    by auto
  from drain_merge [OF r(1), of "[]" out] obtain content out' where
    d: "drain rs [] [] out = ((content, r, out'), None)"
    by blast
  have e: "slot [] i = emptyToolCall" for i
    by (simp add: slot_def)
  have "tc_ID (r ! i) = last_nonempty [] (map tc_ID (at_index i (fragments_of rs))) \<and>
        tc_Name (r ! i) = last_nonempty [] (map tc_Name (at_index i (fragments_of rs))) \<and>
        tc_Arguments (r ! i) = concat (map tc_Arguments (at_index i (fragments_of rs))) \<and>
        (at_index i (fragments_of rs) = [] \<longrightarrow> r ! i = emptyToolCall)"
    if "i < length r" for i
  proof -
    from that have "r ! i = slot r i"
      by (simp add: slot_def)
    then have ri: "r ! i = assemble emptyToolCall (at_index i (fragments_of rs))"
      using r(3) e by simp
    show ?thesis
      unfolding ri using assemble_fields [of emptyToolCall "at_index i (fragments_of rs)"]
      by (auto simp: emptyToolCall_def assemble_def)
  qed
  with d r(2) show ?thesis by blast
qed

lemma two_calls_fragments:
  "fragments_of two_calls_stream =
     [fragment 1 ''call_b'' ''function'' ''write_file'' ''{target_file:'',
      fragment 0 ''call_a'' ''function'' ''read_file'' ''{target_'',
      fragment 1 [] [] [] ''b.txt}'',
      fragment 0 [] [] [] ''file:a.txt}'']"
  by (simp add: fragments_of_def two_calls_stream_def response_def)

theorem drain_assembles_by_index_witness:
  "snd (drain two_calls_stream [] [] []) = None \<and>
   length (drained_calls two_calls_stream) = 2 \<and>
   tc_ID (drained_calls two_calls_stream ! 0) = ''call_a'' \<and>
   tc_Name (drained_calls two_calls_stream ! 0) = ''read_file'' \<and>
   tc_Arguments (drained_calls two_calls_stream ! 0) = ''{target_file:a.txt}'' \<and>
   tc_ID (drained_calls two_calls_stream ! 1) = ''call_b'' \<and>
   tc_Name (drained_calls two_calls_stream ! 1) = ''write_file'' \<and>
   tc_Arguments (drained_calls two_calls_stream ! 1) = ''{target_file:b.txt}''"
proof -
  have nn: "\<forall>f \<in> set (fragments_of two_calls_stream). \<forall>i. tc_Index f = Some i \<longrightarrow> 0 \<le> i"
    by (simp add: two_calls_fragments fragment_def)
  from drain_assembles_by_index [OF nn, of "[]"] obtain content calls out' where
    d: "drain two_calls_stream [] [] [] = ((content, calls, out'), None)"
    and len: "length calls = slot_count (fragments_of two_calls_stream)"
    and fields: "\<forall>i < length calls.
              tc_ID (calls ! i) =
                last_nonempty [] (map tc_ID (at_index i (fragments_of two_calls_stream))) \<and>
              tc_Name (calls ! i) =
                last_nonempty [] (map tc_Name (at_index i (fragments_of two_calls_stream))) \<and>
              tc_Arguments (calls ! i) =
                concat (map tc_Arguments (at_index i (fragments_of two_calls_stream)))"
    by blast
  have c: "drained_calls two_calls_stream = calls"
    by (simp add: drained_calls_def d)
  have l2: "length calls = 2"
    by (simp add: len two_calls_fragments slot_count_def slots_needed_def fragment_def)
  from fields l2 have f0:
    "tc_ID (calls ! 0) = last_nonempty [] (map tc_ID (at_index 0 (fragments_of two_calls_stream)))"
    "tc_Name (calls ! 0) = last_nonempty [] (map tc_Name (at_index 0 (fragments_of two_calls_stream)))"
    "tc_Arguments (calls ! 0) = concat (map tc_Arguments (at_index 0 (fragments_of two_calls_stream)))"
    by simp_all
  from fields l2 have f1:
    "tc_ID (calls ! 1) = last_nonempty [] (map tc_ID (at_index 1 (fragments_of two_calls_stream)))"
    "tc_Name (calls ! 1) = last_nonempty [] (map tc_Name (at_index 1 (fragments_of two_calls_stream)))"
    "tc_Arguments (calls ! 1) = concat (map tc_Arguments (at_index 1 (fragments_of two_calls_stream)))"
    by simp_all
  show ?thesis
    unfolding c using d l2 f0 f1
    by (simp add: two_calls_fragments at_index_def last_nonempty_def fragment_def)
qed

text \<open>
  C2, as the specification states it: two fragments at index 2, each with an identifier.
  The assembled list has three entries for one distinct index, and the identifier of the
  call is the second one received, not the first.
\<close>

theorem first_identifier_counterexample:
  "drain two_ids_stream [] [] [] =
     (([], [emptyToolCall, emptyToolCall,
            \<lparr>tc_Index = None, tc_ID = ''call_b'', tc_Type = ''function'',
             tc_Name = ''read_file'', tc_Arguments = ''{}''\<rparr>], []), None) \<and>
   first_nonempty (map tc_ID (at_index 2 (fragments_of two_ids_stream))) = ''call_a'' \<and>
   remdups (map tc_Index (fragments_of two_ids_stream)) = [Some 2]"
  by (simp add: two_ids_stream_def response_def fragment_def fragments_of_def at_index_def
        first_nonempty_def merge_fragment_def and_then_def set_at_def grow_def
        emptyToolCall_def numeral_3_eq_3)

section \<open>The client: the conversation loop ends within five rounds\<close>



lemma query_loop_round:
  "it < maxIterations \<Longrightarrow>
     query_loop c L td it st =
       (let req = \<lparr>req_Model = model c, req_Messages = qs_messages st, req_Stream = True,
                   req_Tools = td\<rparr>;
            st1 = st\<lparr>qs_requests := qs_requests st @ [req]\<rparr>
        in case CreateChatCompletionStream c it req of
             Inl e \<Rightarrow> (Returned (Some (FailedToCreateStream e)), st1)
           | Inr stream \<Rightarrow>
               (case drain (recvs stream) [] [] (qs_out st1) of
                  ((contentBuffer, toolCalls, out), Some p) \<Rightarrow>
                    (Panicked p, st1\<lparr>qs_out := out\<rparr>)
                | ((contentBuffer, toolCalls, out), None) \<Rightarrow>
                    if final_error stream \<noteq> ''EOF''
                    then (Returned (Some (StreamError (final_error stream))),
                          st1\<lparr>qs_out := out\<rparr>)
                    else if toolCalls = []
                    then (Returned None,
                          st1\<lparr>qs_out := (if contentBuffer \<noteq> [] then out @ [PrintNewline]
                                          else out)\<rparr>)
                    else
                      query_loop c L td (it + 1)
                        (run_tool_calls c L toolCalls
                           (st1\<lparr>qs_out := out,
                                qs_messages := qs_messages st1 @
                                  [\<lparr>msg_Role = ''assistant'', msg_Content = contentBuffer,
                                    msg_ToolCalls = toolCalls, msg_ToolCallID = []\<rparr>]\<rparr>))))"
  by (subst query_loop.simps) simp






lemma negative_index_panics:
  "merge_fragment [] (fragment (- 1) ''call_1'' ''function'' ''read_file'' ''{}'')
     = Inl (IndexOutOfRange (- 1) 0)"
  by (simp add: merge_fragment_def fragment_def and_then_def set_at_def grow_def)

lemma query_loop_create_fails:
  "it < maxIterations \<Longrightarrow>
     CreateChatCompletionStream c it
       \<lparr>req_Model = model c, req_Messages = qs_messages st, req_Stream = True,
        req_Tools = td\<rparr> = Inl e \<Longrightarrow>
     fst (query_loop c L td it st) = Returned (Some (FailedToCreateStream e))"
  by (simp add: query_loop_round Let_def)




end
